theory Spec2Isabelle
  imports Complex_Main "HOL-Library.AList"
begin

section \<open>JavaScript values\<close>

text \<open>
  The messages of the extension host, the persisted terminal state and the layout
  information are untyped JavaScript values (\<open>any\<close>, or the result of \<open>JSON.parse\<close>).
  An array is an object too: a named property can be assigned to it, so \<open>JArr\<close> carries
  its elements and its named properties (none after \<open>JSON.parse\<close>).
\<close>

datatype jsv =
    JUndefined
  | JNull
  | JBool bool
  | JNum rat
  | JStr string
  | JArr "jsv list" "(string \<times> jsv) list"
  | JObj "(string \<times> jsv) list"

text \<open>
  What is thrown: a TypeError or SyntaxError of the language, the rejection of a promise
  of a service, or an exception thrown by a function that is called.
\<close>

datatype exn = TypeError | SyntaxError | Rejected | Thrown

text \<open>The truth value JavaScript gives a value in \<open>if (v)\<close>, \<open>!v\<close> and \<open>v && w\<close>.\<close>

fun truthy :: "jsv \<Rightarrow> bool" where
  "truthy JUndefined = False"
| "truthy JNull = False"
| "truthy (JBool b) = b"
| "truthy (JNum n) = (n \<noteq> 0)"
| "truthy (JStr s) = (s \<noteq> [])"
| "truthy (JArr xs ps) = True"
| "truthy (JObj kvs) = True"

text \<open>
  \<open>v.k\<close>, \<open>k in v\<close> and \<open>v.k = w\<close> for the property names the two files use (version,
  state, processLaunchOptions, env, shellLaunchConfig, useShellEnvironment, strictEnv,
  hideFromUser, type, severity, message): none of them is an array index, \<open>length\<close> or
  a member of a prototype of the values met here. Reading a property of \<open>undefined\<close> or \<open>null\<close> throws a TypeError, reading one
  of another primitive gives \<open>undefined\<close>; \<open>in\<close> throws on every primitive; an
  assignment to a property of a primitive throws (the modules are strict code).
\<close>

fun get_prop :: "jsv \<Rightarrow> string \<Rightarrow> exn + jsv" where
  "get_prop JUndefined k = Inl TypeError"
| "get_prop JNull k = Inl TypeError"
| "get_prop (JBool b) k = Inr JUndefined"
| "get_prop (JNum n) k = Inr JUndefined"
| "get_prop (JStr s) k = Inr JUndefined"
| "get_prop (JArr xs ps) k = Inr (case map_of ps k of None \<Rightarrow> JUndefined | Some v \<Rightarrow> v)"
| "get_prop (JObj kvs) k = Inr (case map_of kvs k of None \<Rightarrow> JUndefined | Some v \<Rightarrow> v)"

fun has_prop :: "string \<Rightarrow> jsv \<Rightarrow> exn + bool" where
  "has_prop k (JArr xs ps) = Inr (map_of ps k \<noteq> None)"
| "has_prop k (JObj kvs) = Inr (map_of kvs k \<noteq> None)"
| "has_prop k v = Inl TypeError"

fun set_prop :: "jsv \<Rightarrow> string \<Rightarrow> jsv \<Rightarrow> exn + jsv" where
  "set_prop (JArr xs ps) k w = Inr (JArr xs (AList.update k w ps))"
| "set_prop (JObj kvs) k w = Inr (JObj (AList.update k w kvs))"
| "set_prop v k w = Inl TypeError"

fun isArray :: "jsv \<Rightarrow> bool" where
  "isArray (JArr xs ps) = True"
| "isArray v = False"

text \<open>
  Whether a value can be converted to a string, as a template literal \<open>`${v}`\<close> does;
  otherwise the conversion throws a TypeError. No value here is a function. An object
  with a \<open>toString\<close> property of its own has no usable \<open>toString\<close>, and \<open>valueOf\<close> gives
  the object back: the conversion throws. Any other object is \<open>[object Object]\<close>. An
  array is converted by \<open>join\<close>, which converts every element that is not \<open>null\<close> or
  \<open>undefined\<close>; with a \<open>join\<close> property of its own it is \<open>[object Array]\<close>.
\<close>

fun string_convertible :: "jsv \<Rightarrow> bool" where
  "string_convertible (JObj kvs) = (map_of kvs ''toString'' = None)"
| "string_convertible (JArr xs ps) =
     (map_of ps ''toString'' = None
      \<and> (map_of ps ''join'' \<noteq> None \<or> list_all string_convertible xs))"
| "string_convertible v = True"

definition bind_exn :: "exn + 'a \<Rightarrow> ('a \<Rightarrow> exn + 'b) \<Rightarrow> exn + 'b" where
  "bind_exn x f = (case x of Inl e \<Rightarrow> Inl e | Inr v \<Rightarrow> f v)"


section \<open>The extension host process manager (threadService.ts)\<close>

subsection \<open>State and effects\<close>

text \<open>
  Modelled from the spec: the promise type \<open>TPromise\<close> (vs/base/common/winjs.base) is not
  among the source files. The spec's message channel (4.3) is a FIFO that drains when the
  child becomes ready, so a promise keeps the callbacks registered with \<open>done\<close> in the
  order of registration and runs them in that order, synchronously, when it completes;
  \<open>done\<close> on a completed promise runs the callback at once. Every callback the manager
  registers is \<open>p => p.send(msg)\<close>, so a listener is its message.
\<close>

record promise =
  settled :: bool
  listeners :: "jsv list"

datatype child_send = InitPayload | Message jsv | TerminateRequest

datatype severity = Warning | Error

datatype notice = StartupFail | StartupFailDebug | ErrorFromHost string | Crash

datatype action = ReloadWindowAction

datatype sup_effect =
    Send child_send
  | Show severity notice "action list"
  | Callback jsv
  | ConsoleLog jsv
  | IpcLog jsv
  | BroadcastLog jsv
  | BroadcastAttach
  | ConsoleError jsv jsv
  | WindowClose
  | IpcExit jsv

record environment =
  extensionDevelopmentPath :: "string option"
  extensionTestsPath :: "string option"
  debugBreak :: bool
  isBuilt :: bool

record ehpm =
  initializeExtensionHostProcess :: "promise option"
  extensionHostProcessHandle :: bool
  extensionHostProcessReady :: bool
  initializeTimer :: bool
  lastExtensionHostError :: "string option"
  unsentMessages :: "jsv list"
  terminating :: bool
  isExtensionDevelopmentHost :: bool
  isExtensionDevelopmentTestFromCli :: bool
  isExtensionDevelopmentDebugging :: bool
  environmentService :: environment
  effects :: "sup_effect list"

definition path_set :: "string option \<Rightarrow> bool" where
  "path_set p = (case p of None \<Rightarrow> False | Some s \<Rightarrow> s \<noteq> [])"

text \<open>The constructor. \<open>lastExtensionHostError\<close> and \<open>terminating\<close> start undefined.\<close>

definition new_manager :: "environment \<Rightarrow> ehpm" where
  "new_manager env =
     \<lparr> initializeExtensionHostProcess = None,
       extensionHostProcessHandle = False,
       extensionHostProcessReady = False,
       initializeTimer = False,
       lastExtensionHostError = None,
       unsentMessages = [],
       terminating = False,
       isExtensionDevelopmentHost = path_set (extensionDevelopmentPath env),
       isExtensionDevelopmentTestFromCli =
         (path_set (extensionDevelopmentPath env) \<and> path_set (extensionTestsPath env)
          \<and> \<not> debugBreak env),
       isExtensionDevelopmentDebugging = debugBreak env,
       environmentService = env,
       effects = [] \<rparr>"

definition emit :: "sup_effect \<Rightarrow> ehpm \<Rightarrow> ehpm" where
  "emit e s = s\<lparr>effects := effects s @ [e]\<rparr>"

text \<open>\<open>extensionHostProcessHandle.send(m)\<close>: the child receives \<open>m\<close>.\<close>

definition send :: "child_send \<Rightarrow> ehpm \<Rightarrow> ehpm" where
  "send m s = emit (Send m) s"

subsection \<open>Operations\<close>

text \<open>
  \<open>startExtensionHostProcess\<close>: arms the ten second timer (when not built, or in a
  development host) and creates the promise of the handshake. The fork itself happens
  when the debug port is resolved (see \<open>Forked\<close> below).
\<close>

definition startExtensionHostProcess :: "ehpm \<Rightarrow> ehpm" where
  "startExtensionHostProcess s =
     s\<lparr> initializeTimer :=
           (if \<not> isBuilt (environmentService s) \<or> isExtensionDevelopmentHost s then True
            else initializeTimer s),
        initializeExtensionHostProcess := Some \<lparr> settled = False, listeners = [] \<rparr> \<rparr>"

definition forked :: "bool \<Rightarrow> ehpm \<Rightarrow> ehpm" where
  "forked port s =
     (let s1 = s\<lparr>extensionHostProcessHandle := True\<rparr>
      in if isExtensionDevelopmentHost s \<and> port then emit BroadcastAttach s1 else s1)"

definition postMessage :: "jsv \<Rightarrow> ehpm \<Rightarrow> ehpm" where
  "postMessage msg s =
     (if extensionHostProcessReady s then send (Message msg) s
      else (case initializeExtensionHostProcess s of
              Some p \<Rightarrow>
                (if settled p then send (Message msg) s
                 else s\<lparr>initializeExtensionHostProcess :=
                          Some (p\<lparr>listeners := listeners p @ [msg]\<rparr>)\<rparr>)
            | None \<Rightarrow> s\<lparr>unsentMessages := unsentMessages s @ [msg]\<rparr>))"

definition initializeExtensionHost :: "ehpm \<Rightarrow> ehpm" where
  "initializeExtensionHost s = send InitPayload (s\<lparr>initializeTimer := False\<rparr>)"

text \<open>
  \<open>logExtensionHostMessage\<close>: where the entry goes. The formatting of its arguments for
  the console is left out. \<open>console_method v\<close> says whether \<open>console[v]\<close> is a method of
  the console; when it is not, \<open>console[logEntry.severity].apply\<close> throws a TypeError.
\<close>

definition logExtensionHostMessage ::
  "(jsv \<Rightarrow> bool) \<Rightarrow> jsv \<Rightarrow> ehpm \<Rightarrow> (exn + unit) \<times> ehpm" where
  "logExtensionHostMessage console_method logEntry s =
     (case (if \<not> isExtensionDevelopmentTestFromCli s
            then (case get_prop logEntry ''severity'' of
                    Inl e \<Rightarrow> (Inl e, s)
                  | Inr severity \<Rightarrow>
                      (if console_method severity then (Inr (), emit (ConsoleLog logEntry) s)
                       else (Inl TypeError, s)))
            else (Inr (), s)) of
        (Inl e, s1) \<Rightarrow> (Inl e, s1)
      | (Inr u, s1) \<Rightarrow>
          (Inr (),
           if isExtensionDevelopmentTestFromCli s then emit (IpcLog logEntry) s1
           else if \<not> isBuilt (environmentService s) \<or> isExtensionDevelopmentHost s
           then emit (BroadcastLog logEntry) s1
           else s1))"

text \<open>
  \<open>onMessaage\<close> returns \<open>true\<close> when the host is initialized; it throws when the logging
  throws.
\<close>

definition onMessaage :: "(jsv \<Rightarrow> bool) \<Rightarrow> jsv \<Rightarrow> ehpm \<Rightarrow> (exn + bool) \<times> ehpm" where
  "onMessaage console_method msg s =
     (if msg = JStr ''ready'' then (Inr False, initializeExtensionHost s)
      else if msg = JStr ''initialized'' then
        (Inr True, (foldl (\<lambda>t m. postMessage m t) s (unsentMessages s))
                     \<lparr>unsentMessages := [], extensionHostProcessReady := True\<rparr>)
      else if truthy msg \<and> get_prop msg ''type'' = Inr (JStr ''__$console'') then
        (case logExtensionHostMessage console_method msg s of
           (Inl e, s1) \<Rightarrow> (Inl e, s1)
         | (Inr u, s1) \<Rightarrow> (Inr False, s1))
      else (Inr False, emit (Callback msg) s))"

text \<open>\<open>c(this.extensionHostProcessHandle)\<close>: completes the promise of the handshake.\<close>

definition complete :: "ehpm \<Rightarrow> ehpm" where
  "complete s =
     (case initializeExtensionHostProcess s of
        None \<Rightarrow> s
      | Some p \<Rightarrow>
          (if settled p then s
           else foldl (\<lambda>t m. send (Message m) t)
                  (s\<lparr>initializeExtensionHostProcess :=
                       Some \<lparr> settled = True, listeners = [] \<rparr>\<rparr>)
                  (listeners p)))"

text \<open>
  The listener of the child's \<open>message\<close> event. An exception of \<open>onMessaage\<close> leaves the
  listener; the manager stays as it was when it was thrown.
\<close>

definition on_message :: "(jsv \<Rightarrow> bool) \<Rightarrow> jsv \<Rightarrow> ehpm \<Rightarrow> ehpm" where
  "on_message console_method msg s =
     (case onMessaage console_method msg s of
        (Inl e, s1) \<Rightarrow> s1
      | (Inr ready, s1) \<Rightarrow> if ready then complete s1 else s1)"

text \<open>
  \<open>onError\<close>: \<open>toErrorMessage\<close> (vs/base/common/errorMessage) is a parameter.
\<close>

definition onError :: "(jsv \<Rightarrow> string) \<Rightarrow> jsv \<Rightarrow> ehpm \<Rightarrow> ehpm" where
  "onError toErrorMessage err s =
     (let errorMessage = toErrorMessage err
      in if Some errorMessage = lastExtensionHostError s then s
         else emit (Show Error (ErrorFromHost errorMessage) [])
                (s\<lparr>lastExtensionHostError := Some errorMessage\<rparr>))"

text \<open>
  \<open>onExit\<close>: the removal of the listener of the window's own exit has no effect here. That
  listener, when it runs, is \<open>terminate\<close>.
\<close>

definition onExit :: "jsv \<Rightarrow> jsv \<Rightarrow> ehpm \<Rightarrow> ehpm" where
  "onExit code signal s =
     (if \<not> terminating s then
        (if \<not> isExtensionDevelopmentHost s then
           emit (ConsoleError code signal) (emit (Show Error Crash [ReloadWindowAction]) s)
         else if \<not> isExtensionDevelopmentTestFromCli s then emit WindowClose s
         else emit (IpcExit code) s)
      else s)"

definition terminate :: "ehpm \<Rightarrow> ehpm" where
  "terminate s =
     (let s1 = s\<lparr>terminating := True\<rparr>
      in if extensionHostProcessHandle s1 then send TerminateRequest s1 else s1)"

definition timer_fired :: "ehpm \<Rightarrow> ehpm" where
  "timer_fired s =
     (if initializeTimer s then
        emit (Show Warning
               (if isExtensionDevelopmentDebugging s then StartupFailDebug else StartupFail) [])
          (s\<lparr>initializeTimer := False\<rparr>)
      else s)"

subsection \<open>Runs\<close>

text \<open>
  What happens to a started manager: a call of \<open>postMessage\<close> or \<open>terminate\<close>, the fork
  (once, when the debug port is resolved), the timer, and the events of the child, whose
  listeners are attached at the fork.
\<close>

datatype event =
    PostMessage jsv
  | Forked bool
  | ChildMessage jsv
  | ChildError jsv
  | ChildExit jsv jsv
  | Terminate
  | TimerFired

fun step :: "(jsv \<Rightarrow> string) \<Rightarrow> (jsv \<Rightarrow> bool) \<Rightarrow> ehpm \<Rightarrow> event \<Rightarrow> ehpm" where
  "step tem cm s (PostMessage m) = postMessage m s"
| "step tem cm s (Forked port) = (if extensionHostProcessHandle s then s else forked port s)"
| "step tem cm s (ChildMessage m) =
     (if extensionHostProcessHandle s then on_message cm m s else s)"
| "step tem cm s (ChildError e) = (if extensionHostProcessHandle s then onError tem e s else s)"
| "step tem cm s (ChildExit c g) = (if extensionHostProcessHandle s then onExit c g s else s)"
| "step tem cm s Terminate = terminate s"
| "step tem cm s TimerFired = timer_fired s"

text \<open>
  The life of a manager: the messages posted before \<open>startExtensionHostProcess\<close>, the
  start, and the events after it.
\<close>

definition run ::
  "(jsv \<Rightarrow> string) \<Rightarrow> (jsv \<Rightarrow> bool) \<Rightarrow> environment \<Rightarrow> jsv list \<Rightarrow> event list \<Rightarrow> ehpm" where
  "run tem cm env pre evs =
     foldl (step tem cm)
       (startExtensionHostProcess (foldl (\<lambda>t m. postMessage m t) (new_manager env) pre)) evs"

text \<open>
  The constructor of \<open>MainThreadService\<close>, the one place where a manager is made (the
  class is not exported): it creates the manager, creates the remote communication, whose
  callback is the only caller of \<open>postMessage\<close>, and starts the process at once. No
  message is posted before the start.
\<close>

definition main_thread_service :: "environment \<Rightarrow> ehpm" where
  "main_thread_service env = startExtensionHostProcess (new_manager env)"

definition service_run ::
  "(jsv \<Rightarrow> string) \<Rightarrow> (jsv \<Rightarrow> bool) \<Rightarrow> environment \<Rightarrow> event list \<Rightarrow> ehpm" where
  "service_run tem cm env evs = foldl (step tem cm) (main_thread_service env) evs"

text \<open>The application messages the child has received, in order.\<close>

fun sent_message :: "sup_effect \<Rightarrow> jsv list" where
  "sent_message (Send (Message m)) = [m]"
| "sent_message e = []"

definition received :: "ehpm \<Rightarrow> jsv list" where
  "received s = concat (map sent_message (effects s))"

fun callback_message :: "sup_effect \<Rightarrow> jsv list" where
  "callback_message (Callback m) = [m]"
| "callback_message e = []"

definition delivered :: "ehpm \<Rightarrow> jsv list" where
  "delivered s = concat (map callback_message (effects s))"

fun shown_notice :: "sup_effect \<Rightarrow> (severity \<times> notice \<times> action list) list" where
  "shown_notice (Show sv n as) = [(sv, n, as)]"
| "shown_notice e = []"

definition shown :: "ehpm \<Rightarrow> (severity \<times> notice \<times> action list) list" where
  "shown s = concat (map shown_notice (effects s))"

fun posted :: "event \<Rightarrow> jsv list" where
  "posted (PostMessage m) = [m]"
| "posted e = []"


section \<open>The local terminal backend (localTerminalBackend.ts)\<close>

subsection \<open>State and effects\<close>

datatype storage_key = TerminalBufferState | TerminalLayoutInfo

datatype pty_call =
    HandleData jsv
  | HandleDidChangeProperty jsv
  | HandleExit jsv
  | HandleReady jsv
  | HandleReplay jsv
  | HandleOrphanQuestion

datatype warning = WrongFormat | WrongVersion jsv | CannotAttach

datatype info = EnvBefore | FreshEnv | EnvAfter | CreateEnv | PtyHostRestarted | ResponsiveAgain

text \<open>
  What the backend does to its collaborators, in order: a call on a \<open>LocalPty\<close> (named
  by the number of its creation), the log service, the storage service, the pty host and
  the notification service, and the events it fires.
\<close>

datatype be_effect =
    PtyCall nat pty_call
  | LogWarn warning jsv
  | LogInfo info jsv
  | LogTrace
  | LogError
  | StorageRemove storage_key
  | HostRevive "jsv list"
  | HostSetLayout jsv
  | HostGetLayout string
  | HostAcceptDetach int int
  | HostCreateProcess jsv jsv bool
  | HostAttach nat
  | Prompt nat
  | CloseNotification nat
  | FireUnresponsive
  | FireResponsive
  | FireRestart

record backend =
  ptys :: "nat \<rightharpoonup> nat"
  isPtyHostUnresponsive :: bool
  unresponsiveNotification :: "nat option"
  storage :: "storage_key \<rightharpoonup> string"
  next_pty :: nat
  next_notification :: nat
  trace :: "be_effect list"

definition new_backend :: "(storage_key \<rightharpoonup> string) \<Rightarrow> backend" where
  "new_backend store =
     \<lparr> ptys = Map.empty, isPtyHostUnresponsive = False, unresponsiveNotification = None,
       storage = store, next_pty = 0, next_notification = 0, trace = [] \<rparr>"

definition tell :: "be_effect \<Rightarrow> backend \<Rightarrow> backend" where
  "tell e st = st\<lparr>trace := trace st @ [e]\<rparr>"

text \<open>
  The services the backend is given, as far as \<open>getTerminalLayoutInfo\<close> calls them. An
  asynchronous call answers \<open>None\<close> when its promise rejects, a synchronous one when it
  throws. \<open>'r\<close> is the type of the variable resolver.
  \<^item> \<open>json_parse\<close>: \<open>JSON.parse\<close> (\<open>None\<close>: a SyntaxError);
  \<^item> \<open>lastActiveWorkspaceRoot\<close>, \<open>getWorkspaceFolder\<close>: the history and workspace context
    services; \<open>profile_environment\<close>: the profile resolver's \<open>getEnvironment\<close>;
    \<open>createVariableResolver\<close>, \<open>createTerminalEnvironment\<close> (with the product version and
    the locale setting): vs/workbench/contrib/terminal/common/terminalEnvironment;
  \<^item> \<open>config_env\<close>: \<open>configurationService.getValue\<close> of an environment key;
  \<^item> \<open>shell_environment\<close>: \<open>shellEnvironmentService.getShellEnv\<close>; \<open>pty_environment\<close>:
    \<open>localPtyService.getEnvironment\<close>;
  \<^item> \<open>applyToProcessEnvironment\<close>: the merged environment variable collection, which
    changes the environment it is given;
  \<^item> \<open>reviveTerminalProcesses\<close>, \<open>host_setTerminalLayoutInfo\<close>,
    \<open>host_getTerminalLayoutInfo\<close>: the pty host.
\<close>

record 'r services =
  json_parse :: "string \<Rightarrow> jsv option"
  workspace_id :: string
  lastActiveWorkspaceRoot :: "string option"
  getWorkspaceFolder :: "string \<Rightarrow> string option"
  profile_environment :: "jsv option"
  createVariableResolver :: "string option \<Rightarrow> jsv \<Rightarrow> 'r"
  isWindows :: bool
  isMacintosh :: bool
  config_env :: "string \<Rightarrow> jsv"
  shell_environment :: "jsv option"
  pty_environment :: "jsv option"
  createTerminalEnvironment :: "jsv \<Rightarrow> jsv \<Rightarrow> 'r \<Rightarrow> jsv \<Rightarrow> jsv option"
  applyToProcessEnvironment :: "jsv \<Rightarrow> 'r \<Rightarrow> jsv option"
  reviveTerminalProcesses :: "jsv list \<Rightarrow> bool"
  host_setTerminalLayoutInfo :: "jsv \<Rightarrow> bool"
  host_getTerminalLayoutInfo :: "string \<Rightarrow> jsv option"

subsection \<open>The session registry\<close>

datatype pty_event =
    ProcessData nat jsv
  | DidChangeProperty nat jsv
  | ProcessExit nat jsv
  | ProcessReady nat jsv
  | ProcessReplay nat jsv
  | ProcessOrphanQuestion nat

fun event_id :: "pty_event \<Rightarrow> nat" where
  "event_id (ProcessData i e) = i"
| "event_id (DidChangeProperty i e) = i"
| "event_id (ProcessExit i e) = i"
| "event_id (ProcessReady i e) = i"
| "event_id (ProcessReplay i e) = i"
| "event_id (ProcessOrphanQuestion i) = i"

fun event_call :: "pty_event \<Rightarrow> pty_call" where
  "event_call (ProcessData i e) = HandleData e"
| "event_call (DidChangeProperty i e) = HandleDidChangeProperty e"
| "event_call (ProcessExit i e) = HandleExit e"
| "event_call (ProcessReady i e) = HandleReady e"
| "event_call (ProcessReplay i e) = HandleReplay e"
| "event_call (ProcessOrphanQuestion i) = HandleOrphanQuestion"

text \<open>The six listeners the constructor attaches to the pty service.\<close>

fun dispatch :: "pty_event \<Rightarrow> backend \<Rightarrow> backend" where
  "dispatch (ProcessData i e) st =
     (case ptys st i of None \<Rightarrow> st | Some pty \<Rightarrow> tell (PtyCall pty (HandleData e)) st)"
| "dispatch (DidChangeProperty i e) st =
     (case ptys st i of None \<Rightarrow> st
      | Some pty \<Rightarrow> tell (PtyCall pty (HandleDidChangeProperty e)) st)"
| "dispatch (ProcessExit i e) st =
     (case ptys st i of None \<Rightarrow> st
      | Some pty \<Rightarrow> (tell (PtyCall pty (HandleExit e)) st)\<lparr>ptys := (ptys st)(i := None)\<rparr>)"
| "dispatch (ProcessReady i e) st =
     (case ptys st i of None \<Rightarrow> st | Some pty \<Rightarrow> tell (PtyCall pty (HandleReady e)) st)"
| "dispatch (ProcessReplay i e) st =
     (case ptys st i of None \<Rightarrow> st | Some pty \<Rightarrow> tell (PtyCall pty (HandleReplay e)) st)"
| "dispatch (ProcessOrphanQuestion i) st =
     (case ptys st i of None \<Rightarrow> st | Some pty \<Rightarrow> tell (PtyCall pty HandleOrphanQuestion) st)"

text \<open>
  \<open>createInstance(LocalPty, id, shouldPersist)\<close> followed by \<open>_ptys.set(id, pty)\<close>: a new
  handle, registered under the id.
\<close>

definition register :: "nat \<Rightarrow> backend \<Rightarrow> nat \<times> backend" where
  "register i st =
     (next_pty st, st\<lparr>ptys := (ptys st)(i \<mapsto> next_pty st), next_pty := Suc (next_pty st)\<rparr>)"

text \<open>
  \<open>createProcess\<close>: \<open>executableEnv\<close> is the answer of \<open>getShellEnv\<close>, \<open>reply\<close> the id the
  pty host answers (\<open>None\<close>: the promise rejects).
\<close>

definition createProcess ::
  "jsv \<Rightarrow> jsv \<Rightarrow> bool \<Rightarrow> jsv option \<Rightarrow> nat option \<Rightarrow> backend \<Rightarrow> (exn + nat) \<times> backend" where
  "createProcess shellLaunchConfig env shouldPersist executableEnv reply st =
     (case executableEnv of
        None \<Rightarrow> (Inl Rejected, st)
      | Some ee \<Rightarrow>
          (let st1 = tell (HostCreateProcess shellLaunchConfig env shouldPersist)
                       (tell (LogInfo CreateEnv env) st)
           in case reply of
                None \<Rightarrow> (Inl Rejected, st1)
              | Some i \<Rightarrow> (case register i st1 of (pty, st2) \<Rightarrow> (Inr pty, st2))))"

text \<open>
  \<open>attachToProcess\<close>: \<open>rejection\<close> is \<open>None\<close> when the pty host's promise resolves and the
  value it rejects with otherwise. The catch block builds its trace message from
  \<open>e.message\<close>: when that throws, the call rejects and nothing is logged.
\<close>

definition attachToProcess ::
  "nat \<Rightarrow> jsv option \<Rightarrow> backend \<Rightarrow> (exn + nat option) \<times> backend" where
  "attachToProcess i rejection st =
     (let st1 = tell (HostAttach i) st
      in case rejection of
           None \<Rightarrow> (case register i st1 of (pty, st2) \<Rightarrow> (Inr (Some pty), st2))
         | Some e \<Rightarrow>
             (case get_prop e ''message'' of
                Inl x \<Rightarrow> (Inl x, st1)
              | Inr m \<Rightarrow>
                  (if string_convertible m then (Inr None, tell LogTrace st1)
                   else (Inl TypeError, st1))))"

text \<open>What happens to the registry: an event of the pty host, or a call that registers.\<close>

datatype registry_op =
    OnEvent pty_event
  | CreateProcess jsv jsv bool "jsv option" "nat option"
  | AttachToProcess nat "jsv option"

fun registry_step :: "backend \<Rightarrow> registry_op \<Rightarrow> backend" where
  "registry_step st (OnEvent e) = dispatch e st"
| "registry_step st (CreateProcess slc env sp ee reply) =
     snd (createProcess slc env sp ee reply st)"
| "registry_step st (AttachToProcess i rejection) = snd (attachToProcess i rejection st)"

text \<open>The calls made on the handle \<open>pty\<close>, in order.\<close>

fun call_on :: "nat \<Rightarrow> be_effect \<Rightarrow> pty_call list" where
  "call_on pty (PtyCall h c) = (if h = pty then [c] else [])"
| "call_on pty e = []"

definition calls_on :: "nat \<Rightarrow> backend \<Rightarrow> pty_call list" where
  "calls_on pty st = concat (map (call_on pty) (trace st))"

subsection \<open>Detaching\<close>

text \<open>\<open>ok\<close>: whether the pty host's \<open>acceptDetachInstanceReply\<close> resolves.\<close>

definition acceptDetachInstanceReply ::
  "int \<Rightarrow> int option \<Rightarrow> bool \<Rightarrow> backend \<Rightarrow> (exn + unit) \<times> backend" where
  "acceptDetachInstanceReply requestId persistentProcessId ok st =
     (case persistentProcessId of
        None \<Rightarrow> (Inr (), tell (LogWarn CannotAttach JUndefined) st)
      | Some p \<Rightarrow>
          (if p = 0 then (Inr (), tell (LogWarn CannotAttach JUndefined) st)
           else (if ok then Inr () else Inl Rejected, tell (HostAcceptDetach requestId p) st)))"

subsection \<open>The health of the pty host\<close>

definition close_notification :: "backend \<Rightarrow> backend" where
  "close_notification st =
     (case unresponsiveNotification st of
        None \<Rightarrow> st
      | Some h \<Rightarrow> tell (CloseNotification h) st)"

definition onPtyHostExit :: "backend \<Rightarrow> backend" where
  "onPtyHostExit st = tell LogError st"

definition onPtyHostStart :: "backend \<Rightarrow> backend" where
  "onPtyHostStart st =
     (close_notification (tell FireRestart (tell (LogInfo PtyHostRestarted JUndefined) st)))
       \<lparr>unresponsiveNotification := None, isPtyHostUnresponsive := False\<rparr>"

definition onPtyHostUnresponsive :: "backend \<Rightarrow> backend" where
  "onPtyHostUnresponsive st =
     tell FireUnresponsive
       ((tell (Prompt (next_notification st)) st)
          \<lparr>unresponsiveNotification := Some (next_notification st),
           next_notification := Suc (next_notification st),
           isPtyHostUnresponsive := True\<rparr>)"

definition onPtyHostResponsive :: "backend \<Rightarrow> backend" where
  "onPtyHostResponsive st =
     (if \<not> isPtyHostUnresponsive st then st
      else tell FireResponsive
             ((close_notification (tell (LogInfo ResponsiveAgain JUndefined) st))
                \<lparr>unresponsiveNotification := None, isPtyHostUnresponsive := False\<rparr>))"

subsection \<open>Revival\<close>

definition of_reply :: "exn \<Rightarrow> 'a option \<Rightarrow> exn + 'a" where
  "of_reply e x = (case x of None \<Rightarrow> Inl e | Some v \<Rightarrow> Inr v)"

text \<open>
  \<open>_resolveEnvironmentForRevive\<close>. Its only argument from the persisted state is the
  shell launch configuration.
\<close>

definition resolveEnvironmentForRevive :: "'r services \<Rightarrow> 'r \<Rightarrow> jsv \<Rightarrow> exn + jsv" where
  "resolveEnvironmentForRevive sv variableResolver shellLaunchConfig =
     (let platformKey =
            (if isWindows sv then ''windows'' else if isMacintosh sv then ''osx'' else ''linux'');
          envFromConfigValue = config_env sv (''terminal.integrated.env.'' @ platformKey)
      in bind_exn (get_prop shellLaunchConfig ''useShellEnvironment'') (\<lambda>useShell.
         bind_exn (of_reply Rejected
                    (if truthy useShell then shell_environment sv else pty_environment sv))
           (\<lambda>baseEnv.
         bind_exn (of_reply Thrown
                    (createTerminalEnvironment sv shellLaunchConfig envFromConfigValue
                       variableResolver baseEnv)) (\<lambda>env.
         bind_exn (get_prop shellLaunchConfig ''strictEnv'') (\<lambda>strictEnv.
         bind_exn (get_prop shellLaunchConfig ''hideFromUser'') (\<lambda>hideFromUser.
           if \<not> truthy strictEnv \<and> \<not> truthy hideFromUser
           then of_reply Thrown (applyToProcessEnvironment sv env variableResolver)
           else Inr env))))))"

text \<open>
  The loop over the parsed entries: each entry's \<open>processLaunchOptions.env\<close> is replaced.
  The result is the array as \<open>reviveTerminalProcesses\<close> will see it.
\<close>

fun revive_entries ::
  "'r services \<Rightarrow> 'r \<Rightarrow> jsv list \<Rightarrow> backend \<Rightarrow> (exn + jsv list) \<times> backend" where
  "revive_entries sv r [] st = (Inr [], st)"
| "revive_entries sv r (state # rest) st =
     (case bind_exn (get_prop state ''processLaunchOptions'') (\<lambda>plo. get_prop plo ''env'') of
        Inl e \<Rightarrow> (Inl e, st)
      | Inr captured \<Rightarrow>
          (let st1 = tell (LogInfo EnvBefore captured) st
           in case bind_exn (get_prop state ''shellLaunchConfig'')
                     (resolveEnvironmentForRevive sv r) of
                Inl e \<Rightarrow> (Inl e, st1)
              | Inr freshEnv \<Rightarrow>
                  (let st2 = tell (LogInfo FreshEnv freshEnv) st1
                   in case bind_exn (get_prop state ''processLaunchOptions'') (\<lambda>plo.
                           bind_exn (set_prop plo ''env'' freshEnv)
                             (set_prop state ''processLaunchOptions'')) of
                        Inl e \<Rightarrow> (Inl e, st2)
                      | Inr state1 \<Rightarrow>
                          (case revive_entries sv r rest (tell (LogInfo EnvAfter freshEnv) st2) of
                             (Inl e, st3) \<Rightarrow> (Inl e, st3)
                           | (Inr rest1, st3) \<Rightarrow> (Inr (state1 # rest1), st3)))))"

text \<open>
  \<open>!('version' in p) || !('state' in p) || !Array.isArray(p.state)\<close>, evaluated from the
  left.
\<close>

definition wrong_format :: "jsv \<Rightarrow> exn + bool" where
  "wrong_format p =
     bind_exn (has_prop ''version'' p) (\<lambda>hasVersion.
       if \<not> hasVersion then Inr True
       else bind_exn (has_prop ''state'' p) (\<lambda>hasState.
         if \<not> hasState then Inr True
         else bind_exn (get_prop p ''state'') (\<lambda>s. Inr (\<not> isArray s))))"

fun elements :: "jsv \<Rightarrow> jsv list" where
  "elements (JArr xs ps) = xs"
| "elements v = []"

text \<open>How the body of the \<open>try\<close> ends: by \<open>return\<close>, at its end, or by an exception.\<close>

datatype completion = Returned | Finished | Threw exn

definition storage_remove :: "storage_key \<Rightarrow> backend \<Rightarrow> backend" where
  "storage_remove k st = tell (StorageRemove k) (st\<lparr>storage := (storage st)(k := None)\<rparr>)"

text \<open>After the entries are re-resolved: the revival and the layout.\<close>

definition revive_and_clear :: "'r services \<Rightarrow> jsv list \<Rightarrow> backend \<Rightarrow> completion \<times> backend" where
  "revive_and_clear sv parsed st =
     (let st1 = tell (HostRevive parsed) st
      in if \<not> reviveTerminalProcesses sv parsed then (Threw Rejected, st1)
         else
           (let st2 = storage_remove TerminalBufferState st1
            in case storage st2 TerminalLayoutInfo of
                 None \<Rightarrow> (Finished, st2)
               | Some layoutInfo \<Rightarrow>
                   (if layoutInfo = [] then (Finished, st2)
                    else (case json_parse sv layoutInfo of
                            None \<Rightarrow> (Threw SyntaxError, st2)
                          | Some l \<Rightarrow>
                              (let st3 = tell (HostSetLayout l) st2
                               in if \<not> host_setTerminalLayoutInfo sv l then (Threw Rejected, st3)
                                  else (Finished, storage_remove TerminalLayoutInfo st3))))))"

text \<open>
  The body of the \<open>try\<close>. The warning of a wrong version is built with the template
  literal \<open>`... "${parsedCrossVersion.version}"`\<close>, which throws when the version cannot be
  converted to a string.
\<close>

definition revive_body :: "'r services \<Rightarrow> string \<Rightarrow> backend \<Rightarrow> completion \<times> backend" where
  "revive_body sv serializedState st =
     (case json_parse sv serializedState of
        None \<Rightarrow> (Threw SyntaxError, st)
      | Some parsedUnknown \<Rightarrow>
          (case wrong_format parsedUnknown of
             Inl e \<Rightarrow> (Threw e, st)
           | Inr True \<Rightarrow> (Returned, tell (LogWarn WrongFormat parsedUnknown) st)
           | Inr False \<Rightarrow>
               (case bind_exn (get_prop parsedUnknown ''version'') (\<lambda>version.
                       bind_exn (get_prop parsedUnknown ''state'') (\<lambda>s. Inr (version, s))) of
                  Inl e \<Rightarrow> (Threw e, st)
                | Inr (version, s) \<Rightarrow>
                    (if version \<noteq> JNum 1
                     then (if string_convertible version
                           then (Returned,
                                 tell (LogWarn (WrongVersion version) parsedUnknown) st)
                           else (Threw TypeError, st))
                     else
                       (let lastActiveWorkspace =
                              (case lastActiveWorkspaceRoot sv of
                                 None \<Rightarrow> None
                               | Some uri \<Rightarrow> getWorkspaceFolder sv uri)
                        in case profile_environment sv of
                             None \<Rightarrow> (Threw Rejected, st)
                           | Some penv \<Rightarrow>
                               (case revive_entries sv
                                       (createVariableResolver sv lastActiveWorkspace penv)
                                       (elements s) st of
                                  (Inl e, st1) \<Rightarrow> (Threw e, st1)
                                | (Inr parsed, st1) \<Rightarrow> revive_and_clear sv parsed st1))))))"

definition query_host :: "'r services \<Rightarrow> backend \<Rightarrow> (exn + jsv) \<times> backend" where
  "query_host sv st =
     (of_reply Rejected (host_getTerminalLayoutInfo sv (workspace_id sv)),
      tell (HostGetLayout (workspace_id sv)) st)"

text \<open>
  \<open>getTerminalLayoutInfo\<close>: \<open>Inr v\<close> when the promise resolves to \<open>v\<close>, \<open>Inl e\<close> when it
  rejects.
\<close>

definition getTerminalLayoutInfo :: "'r services \<Rightarrow> backend \<Rightarrow> (exn + jsv) \<times> backend" where
  "getTerminalLayoutInfo sv st =
     (case storage st TerminalBufferState of
        None \<Rightarrow> query_host sv st
      | Some serializedState \<Rightarrow>
          (if serializedState = [] then query_host sv st
           else (case revive_body sv serializedState st of
                   (Returned, st1) \<Rightarrow> (Inr JUndefined, st1)
                 | (Finished, st1) \<Rightarrow> query_host sv st1
                 | (Threw e, st1) \<Rightarrow> query_host sv st1)))"

text \<open>Observations of a trace.\<close>

fun is_warn :: "be_effect \<Rightarrow> bool" where
  "is_warn (LogWarn w v) = True"
| "is_warn e = False"

fun is_revive :: "be_effect \<Rightarrow> bool" where
  "is_revive (HostRevive es) = True"
| "is_revive e = False"

fun is_layout_query :: "be_effect \<Rightarrow> bool" where
  "is_layout_query (HostGetLayout w) = True"
| "is_layout_query e = False"

fun is_host_detach :: "be_effect \<Rightarrow> bool" where
  "is_host_detach (HostAcceptDetach r p) = True"
| "is_host_detach e = False"

text \<open>
  The values \<open>JSON.parse\<close> gives on the texts used as examples below, and a set of
  services to run the examples with: the resolver is a number, the fresh environment
  holds \<open>NEW\<close>, the collection adds \<open>EXTRA\<close>.
\<close>

definition entry1 :: jsv where
  "entry1 =
     JObj [(''shellLaunchConfig'', JObj []),
           (''processLaunchOptions'', JObj [(''env'', JObj [(''OLD'', JStr ''1'')])])]"

definition blob_null :: string where
  "blob_null = ''null''"

definition blob_version2 :: string where
  "blob_version2 = ''{\"version\":2,\"state\":[]}''"

definition blob_version1 :: string where
  "blob_version1 =
     ''{\"version\":1,\"state\":[{\"shellLaunchConfig\":{},\"processLaunchOptions\":{\"env\":{\"OLD\":\"1\"}}}]}''"

definition blob_version_object :: string where
  "blob_version_object = ''{\"version\":{\"toString\":0},\"state\":[]}''"

definition blob_layout :: string where
  "blob_layout = ''{\"workspaceId\":\"w\",\"tabs\":[]}''"

definition example_parse :: "string \<Rightarrow> jsv option" where
  "example_parse s =
     (if s = blob_null then Some JNull
      else if s = blob_version2 then
        Some (JObj [(''version'', JNum 2), (''state'', JArr [] [])])
      else if s = blob_version1 then
        Some (JObj [(''version'', JNum 1), (''state'', JArr [entry1] [])])
      else if s = blob_version_object then
        Some (JObj [(''version'', JObj [(''toString'', JNum 0)]), (''state'', JArr [] [])])
      else if s = blob_layout then
        Some (JObj [(''workspaceId'', JStr ''w''), (''tabs'', JArr [] [])])
      else None)"

definition example_services :: "bool \<Rightarrow> nat services" where
  "example_services layout_ok =
     \<lparr> json_parse = example_parse,
       workspace_id = ''w'',
       lastActiveWorkspaceRoot = None,
       getWorkspaceFolder = (\<lambda>u. None),
       profile_environment = Some (JObj []),
       createVariableResolver = (\<lambda>w e. 0),
       isWindows = False,
       isMacintosh = False,
       config_env = (\<lambda>k. JUndefined),
       shell_environment = Some (JObj []),
       pty_environment = Some (JObj []),
       createTerminalEnvironment = (\<lambda>slc cfg r base. Some (JObj [(''NEW'', JStr ''2'')])),
       applyToProcessEnvironment =
         (\<lambda>env r. case env of JObj kvs \<Rightarrow> Some (JObj (kvs @ [(''EXTRA'', JStr ''3'')]))
                   | _ \<Rightarrow> Some env),
       reviveTerminalProcesses = (\<lambda>es. True),
       host_setTerminalLayoutInfo = (\<lambda>l. layout_ok),
       host_getTerminalLayoutInfo = (\<lambda>w. Some (JObj [(''tabs'', JArr [] [])])) \<rparr>"

definition example_store :: "string \<Rightarrow> string option \<Rightarrow> (storage_key \<rightharpoonup> string)" where
  "example_store blob layout =
     (\<lambda>k. case k of TerminalBufferState \<Rightarrow> Some blob | TerminalLayoutInfo \<Rightarrow> layout)"

definition example_env :: environment where
  "example_env =
     \<lparr> extensionDevelopmentPath = None, extensionTestsPath = None, debugBreak = False,
       isBuilt = True \<rparr>"

definition example_tem :: "jsv \<Rightarrow> string" where
  "example_tem err = (case err of JStr s \<Rightarrow> s | _ \<Rightarrow> ''An unknown error occurred.'')"

definition example_console :: "jsv \<Rightarrow> bool" where
  "example_console v =
     (v = JStr ''log'' \<or> v = JStr ''info'' \<or> v = JStr ''warn'' \<or> v = JStr ''error'')"

subsection \<open>Notions of the specification\<close>

text \<open>A field of a persisted value: present or missing.\<close>

fun field :: "jsv \<Rightarrow> string \<Rightarrow> jsv option" where
  "field (JObj kvs) k = map_of kvs k"
| "field (JArr xs ps) k = map_of ps k"
| "field v k = None"

fun is_object :: "jsv \<Rightarrow> bool" where
  "is_object (JObj kvs) = True"
| "is_object (JArr xs ps) = True"
| "is_object v = False"

text \<open>
  The persisted value is missing \<open>version\<close>, or missing \<open>state\<close>, or its \<open>state\<close> is not an
  array, or its \<open>version\<close> is not 1.
\<close>

definition invalid_state :: "jsv \<Rightarrow> bool" where
  "invalid_state p =
     (field p ''version'' = None \<or> field p ''state'' = None
      \<or> (case field p ''state'' of None \<Rightarrow> True | Some s \<Rightarrow> \<not> isArray s)
      \<or> field p ''version'' \<noteq> Some (JNum 1))"

text \<open>
  The validation reaches one of its two warnings: the value is an object (or an array),
  and either the format is wrong, or the version, which is then the wrong one, can be
  converted to a string for the warning.
\<close>

definition format_missing :: "jsv \<Rightarrow> bool" where
  "format_missing p =
     (field p ''version'' = None \<or> field p ''state'' = None
      \<or> (case field p ''state'' of None \<Rightarrow> True | Some s \<Rightarrow> \<not> isArray s))"

definition version_printable :: "jsv \<Rightarrow> bool" where
  "version_printable p =
     (case field p ''version'' of None \<Rightarrow> True | Some v \<Rightarrow> string_convertible v)"

definition warned :: "jsv \<Rightarrow> bool" where
  "warned p = (is_object p \<and> (format_missing p \<or> version_printable p))"

text \<open>What one call added to the trace.\<close>

definition new_effects :: "backend \<Rightarrow> backend \<Rightarrow> be_effect list" where
  "new_effects st st1 = drop (length (trace st)) (trace st1)"

text \<open>The environment an entry carries, and the one resolved for it now.\<close>

definition env_of :: "jsv \<Rightarrow> exn + jsv" where
  "env_of state = bind_exn (get_prop state ''processLaunchOptions'') (\<lambda>plo. get_prop plo ''env'')"

definition fresh_env :: "'r services \<Rightarrow> 'r \<Rightarrow> jsv \<Rightarrow> exn + jsv" where
  "fresh_env sv r state =
     bind_exn (get_prop state ''shellLaunchConfig'') (resolveEnvironmentForRevive sv r)"

definition flag :: "jsv \<Rightarrow> string \<Rightarrow> bool" where
  "flag shellLaunchConfig k =
     (case get_prop shellLaunchConfig k of Inl e \<Rightarrow> False | Inr v \<Rightarrow> truthy v)"

definition platform_env :: "'r services \<Rightarrow> jsv" where
  "platform_env sv =
     config_env sv
       (if isWindows sv then ''terminal.integrated.env.windows''
        else if isMacintosh sv then ''terminal.integrated.env.osx''
        else ''terminal.integrated.env.linux'')"

definition base_environment :: "'r services \<Rightarrow> jsv \<Rightarrow> jsv option" where
  "base_environment sv shellLaunchConfig =
     (if flag shellLaunchConfig ''useShellEnvironment'' then shell_environment sv
      else pty_environment sv)"

definition revive_resolver :: "'r services \<Rightarrow> jsv \<Rightarrow> 'r" where
  "revive_resolver sv penv =
     createVariableResolver sv
       (case lastActiveWorkspaceRoot sv of None \<Rightarrow> None | Some uri \<Rightarrow> getWorkspaceFolder sv uri)
       penv"

text \<open>
  The manager before the handshake: not ready, the promise pending with the listeners
  \<open>ps\<close>, the messages \<open>pre\<close> unsent, and no application message sent to the child.
\<close>

definition waiting :: "jsv list \<Rightarrow> jsv list \<Rightarrow> ehpm \<Rightarrow> bool" where
  "waiting pre ps s =
     (\<not> extensionHostProcessReady s
      \<and> initializeExtensionHostProcess s = Some \<lparr> settled = False, listeners = ps \<rparr>
      \<and> unsentMessages s = pre \<and> received s = [])"

text \<open>The manager after the handshake: ready, the promise completed, nothing unsent.\<close>

definition flushed :: "ehpm \<Rightarrow> bool" where
  "flushed s =
     (extensionHostProcessReady s
      \<and> initializeExtensionHostProcess s = Some \<lparr> settled = True, listeners = [] \<rparr>
      \<and> unsentMessages s = [])"

text \<open>The entry of \<open>blob_version1\<close> after its environment is resolved again.\<close>

definition entry1_revived :: jsv where
  "entry1_revived =
     JObj [(''shellLaunchConfig'', JObj []),
           (''processLaunchOptions'',
            JObj [(''env'', JObj [(''NEW'', JStr ''2''), (''EXTRA'', JStr ''3'')])])]"

definition example_backend :: "string \<Rightarrow> string option \<Rightarrow> backend" where
  "example_backend blob layout = new_backend (example_store blob layout)"

text \<open>Notions for the session registry and the traces of the backend.\<close>

fun is_exit :: "pty_event \<Rightarrow> bool" where
  "is_exit (ProcessExit i e) = True"
| "is_exit e = False"

text \<open>Every registered handle was created before, and under one id only.\<close>

definition fresh_handles :: "backend \<Rightarrow> bool" where
  "fresh_handles st =
     ((\<forall>i h. ptys st i = Some h \<longrightarrow> h < next_pty st)
      \<and> (\<forall>i j h. ptys st i = Some h \<longrightarrow> ptys st j = Some h \<longrightarrow> i = j))"

text \<open>A handle that was created and is registered no more.\<close>

definition retired :: "nat \<Rightarrow> backend \<Rightarrow> bool" where
  "retired pty st = (pty < next_pty st \<and> (\<forall>i. ptys st i \<noteq> Some pty))"

fun is_info :: "be_effect \<Rightarrow> bool" where
  "is_info (LogInfo i v) = True"
| "is_info e = False"

text \<open>\<open>st1\<close> is \<open>st\<close> after some effects, none of them a revival.\<close>

definition quiet :: "backend \<Rightarrow> backend \<Rightarrow> bool" where
  "quiet st st1 = (\<exists>ls. st1 = st\<lparr>trace := trace st @ ls\<rparr> \<and> \<not> list_ex is_revive ls)"

section \<open>Properties of the extension host process manager\<close>

lemma received_emit [simp]: "received (emit e s) = received s @ sent_message e"
  by (simp add: received_def emit_def)

lemma delivered_emit [simp]: "delivered (emit e s) = delivered s @ callback_message e"
  by (simp add: delivered_def emit_def)

lemma shown_emit [simp]: "shown (emit e s) = shown s @ shown_notice e"
  by (simp add: shown_def emit_def)

subsection \<open>Messages posted before the handshake\<close>

lemma unsent_foldl_postMessage:
  "initializeExtensionHostProcess s = None \<Longrightarrow> \<not> extensionHostProcessReady s \<Longrightarrow>
   foldl (\<lambda>t m. postMessage m t) s ms =
     s\<lparr>unsentMessages := unsentMessages s @ ms\<rparr>"
  by (induction ms arbitrary: s) (simp_all add: postMessage_def)

lemma waiting_start:
  "waiting pre []
     (startExtensionHostProcess (foldl (\<lambda>t m. postMessage m t) (new_manager env) pre))"
  by (simp add: unsent_foldl_postMessage new_manager_def waiting_def
      startExtensionHostProcess_def received_def)

lemma waiting_step:
  assumes "waiting pre ps s" and "e \<noteq> ChildMessage (JStr ''initialized'')"
  shows "waiting pre (ps @ posted e) (step tem cm s e)"
proof (cases e)
  case (PostMessage m)
  with assms show ?thesis by (simp add: waiting_def postMessage_def received_def)
next
  case (Forked p)
  with assms show ?thesis by (simp add: waiting_def forked_def Let_def received_def emit_def)
next
  case (ChildMessage m)
  with assms show ?thesis
    by (auto simp add: waiting_def on_message_def onMessaage_def initializeExtensionHost_def
        send_def logExtensionHostMessage_def Let_def received_def emit_def
        split: sum.splits)
next
  case (ChildError x)
  with assms show ?thesis by (simp add: waiting_def onError_def Let_def received_def emit_def)
next
  case (ChildExit c g)
  with assms show ?thesis by (simp add: waiting_def onExit_def received_def emit_def)
next
  case Terminate
  with assms show ?thesis
    by (simp add: waiting_def terminate_def Let_def send_def received_def emit_def)
next
  case TimerFired
  with assms show ?thesis by (simp add: waiting_def timer_fired_def received_def emit_def)
qed

lemma waiting_steps:
  "waiting pre ps s \<Longrightarrow> ChildMessage (JStr ''initialized'') \<notin> set evs \<Longrightarrow>
   waiting pre (ps @ concat (map posted evs)) (foldl (step tem cm) s evs)"
proof (induction evs arbitrary: s ps)
  case Nil
  then show ?case by simp
next
  case (Cons e evs)
  from Cons.prems have "waiting pre (ps @ posted e) (step tem cm s e)"
    by (intro waiting_step) auto
  from Cons.IH [OF this] Cons.prems(2) show ?case by simp
qed

lemma handle_step:
  assumes "extensionHostProcessHandle s" and "e \<noteq> ChildMessage (JStr ''initialized'')"
  shows "extensionHostProcessHandle (step tem cm s e)"
  using assms
  by (cases e)
     (auto simp add: postMessage_def on_message_def onMessaage_def
        initializeExtensionHost_def send_def logExtensionHostMessage_def Let_def emit_def
        onError_def onExit_def terminate_def timer_fired_def
        split: option.splits sum.splits)

lemma handle_steps:
  "extensionHostProcessHandle s \<Longrightarrow> ChildMessage (JStr ''initialized'') \<notin> set evs \<Longrightarrow>
   extensionHostProcessHandle (foldl (step tem cm) s evs)"
proof (induction evs arbitrary: s)
  case Nil
  then show ?case by simp
next
  case (Cons e evs)
  from Cons.prems have "extensionHostProcessHandle (step tem cm s e)"
    by (intro handle_step) auto
  from Cons.IH [OF this] Cons.prems(2) show ?case by simp
qed

lemma forked_steps:
  "Forked p \<in> set evs \<Longrightarrow> ChildMessage (JStr ''initialized'') \<notin> set evs \<Longrightarrow>
   extensionHostProcessHandle (foldl (step tem cm) s evs)"
proof (induction evs arbitrary: s)
  case Nil
  then show ?case by simp
next
  case (Cons e evs)
  show ?case
  proof (cases "e = Forked p")
    case True
    then have "extensionHostProcessHandle (step tem cm s e)"
      by (simp add: forked_def Let_def emit_def)
    from handle_steps [OF this] Cons.prems(2) show ?thesis by simp
  next
    case False
    with Cons.prems have "Forked p \<in> set evs" by simp
    from Cons.IH [OF this] Cons.prems(2) show ?thesis by simp
  qed
qed

lemma listeners_foldl_postMessage:
  "\<not> extensionHostProcessReady s \<Longrightarrow>
   initializeExtensionHostProcess s = Some \<lparr> settled = False, listeners = ps \<rparr> \<Longrightarrow>
   foldl (\<lambda>t m. postMessage m t) s ms =
     s\<lparr>initializeExtensionHostProcess := Some \<lparr> settled = False, listeners = ps @ ms \<rparr>\<rparr>"
  by (induction ms arbitrary: s ps) (simp_all add: postMessage_def)

lemma received_foldl_send:
  "received (foldl (\<lambda>t m. send (Message m) t) s ms) = received s @ ms"
  by (induction ms arbitrary: s) (simp_all add: send_def)

lemma flushed_foldl_send:
  "flushed (foldl (\<lambda>t m. send (Message m) t) s ms) = flushed s"
  by (induction ms arbitrary: s) (simp_all add: send_def emit_def flushed_def)

lemma received_initialized:
  assumes "waiting pre ps s"
  shows "received (on_message cm (JStr ''initialized'') s) = ps @ pre"
    and "flushed (on_message cm (JStr ''initialized'') s)"
proof -
  from assms have r: "\<not> extensionHostProcessReady s"
    and p: "initializeExtensionHostProcess s = Some \<lparr> settled = False, listeners = ps \<rparr>"
    and u: "unsentMessages s = pre" and e: "received s = []"
    by (simp_all add: waiting_def)
  show "received (on_message cm (JStr ''initialized'') s) = ps @ pre"
    by (simp add: on_message_def onMessaage_def listeners_foldl_postMessage [OF r p] u
        complete_def received_foldl_send)
       (simp add: received_def e [unfolded received_def])
  show "flushed (on_message cm (JStr ''initialized'') s)"
    by (simp add: on_message_def onMessaage_def listeners_foldl_postMessage [OF r p] u
        complete_def flushed_foldl_send)
       (simp add: flushed_def)
qed

text \<open>
  After the handshake a posted message is sent to the child at once, and nothing else
  sends an application message.
\<close>

lemma flushed_step:
  assumes "flushed s"
  shows "flushed (step tem cm s e) \<and> received (step tem cm s e) = received s @ posted e"
proof (cases e)
  case (PostMessage m)
  with assms show ?thesis
    by (simp add: flushed_def postMessage_def send_def emit_def received_def)
next
  case (Forked p)
  with assms show ?thesis by (simp add: flushed_def forked_def Let_def emit_def received_def)
next
  case (ChildMessage m)
  with assms show ?thesis
    by (auto simp add: flushed_def on_message_def onMessaage_def initializeExtensionHost_def
        send_def logExtensionHostMessage_def complete_def Let_def received_def emit_def
        split: sum.splits)
next
  case (ChildError x)
  with assms show ?thesis by (simp add: flushed_def onError_def Let_def emit_def received_def)
next
  case (ChildExit c g)
  with assms show ?thesis by (simp add: flushed_def onExit_def emit_def received_def)
next
  case Terminate
  with assms show ?thesis
    by (simp add: flushed_def terminate_def Let_def send_def emit_def received_def)
next
  case TimerFired
  with assms show ?thesis by (simp add: flushed_def timer_fired_def emit_def received_def)
qed

lemma flushed_steps:
  "flushed s \<Longrightarrow>
   received (foldl (step tem cm) s evs) = received s @ concat (map posted evs)"
proof (induction evs arbitrary: s)
  case Nil
  then show ?case by simp
next
  case (Cons e evs)
  from flushed_step [OF Cons.prems, of tem cm e] Cons.IH [of "step tem cm s e"]
  show ?case by simp
qed

text \<open>
  However the calls and events before \<open>initialized\<close> are interleaved, the child has
  received no posted message.
\<close>

lemma nothing_before_initialized:
  assumes "ChildMessage (JStr ''initialized'') \<notin> set evs"
  shows "received (run tem cm env pre evs) = []"
  using waiting_steps [where tem = tem and cm = cm, OF waiting_start [where env = env and pre = pre] assms]
  by (simp add: run_def waiting_def)

text \<open>
  When \<open>initialized\<close> arrives, the child receives every message posted so far once: first
  those posted after \<open>startExtensionHostProcess\<close>, then those posted before it.
\<close>

lemma order_at_initialized:
  assumes "ChildMessage (JStr ''initialized'') \<notin> set evs" and "Forked p \<in> set evs"
  shows "received (run tem cm env pre (evs @ [ChildMessage (JStr ''initialized'')]))
           = concat (map posted evs) @ pre"
    and "flushed (run tem cm env pre (evs @ [ChildMessage (JStr ''initialized'')]))"
proof -
  let ?s = "run tem cm env pre evs"
  have w: "waiting pre (concat (map posted evs)) ?s"
    using waiting_steps [where tem = tem and cm = cm, OF waiting_start [where env = env and pre = pre] assms(1)]
    by (simp add: run_def)
  have h: "extensionHostProcessHandle ?s"
    using forked_steps [OF assms(2) assms(1), where tem = tem and cm = cm] by (simp add: run_def)
  have r: "run tem cm env pre (evs @ [ChildMessage (JStr ''initialized'')])
          = on_message cm (JStr ''initialized'') ?s"
    using h by (simp add: run_def)
  from received_initialized(1) [OF w, of cm] r
  show "received (run tem cm env pre (evs @ [ChildMessage (JStr ''initialized'')]))
          = concat (map posted evs) @ pre" by simp
  from received_initialized(2) [OF w, of cm] r
  show "flushed (run tem cm env pre (evs @ [ChildMessage (JStr ''initialized'')]))" by simp
qed

text \<open>
  With a message posted before \<open>startExtensionHostProcess\<close> the order of the two groups
  shows: \<open>a\<close>, posted before the start, reaches the child behind \<open>b\<close>, posted after it.
  The constructor of \<open>MainThreadService\<close> starts the process before anything is posted.
\<close>

lemma mixed_posts_reordered:
  "received (run example_tem example_console example_env [JStr ''a'']
      [Forked False, PostMessage (JStr ''b''), ChildMessage (JStr ''ready''),
       ChildMessage (JStr ''initialized'')]) = [JStr ''b'', JStr ''a'']"
  by (simp add: run_def received_def new_manager_def example_env_def postMessage_def
      startExtensionHostProcess_def forked_def on_message_def onMessaage_def
      initializeExtensionHost_def send_def emit_def complete_def path_set_def)

lemma service_run_run: "service_run tem cm env evs = run tem cm env [] evs"
  by (simp add: service_run_def main_thread_service_def run_def)

text \<open>
  Claim C1: in a run of the service, the messages posted before the child signals
  \<open>initialized\<close> reach the child once each, in the order of the calls, and none of them
  before \<open>initialized\<close>: as long as \<open>initialized\<close> has not arrived the child has received
  no posted message; when it arrives (the child was forked before), the child has received
  exactly the messages posted so far, in the order of the calls; and whatever follows, the
  messages posted later are sent behind them, in the order of the calls.
\<close>

theorem posted_messages_delivered_in_order:
  "(ChildMessage (JStr ''initialized'') \<notin> set evs \<longrightarrow>
      received (service_run tem cm env evs) = [])
   \<and> (ChildMessage (JStr ''initialized'') \<notin> set evs \<and> Forked p \<in> set evs \<longrightarrow>
        received (service_run tem cm env (evs @ [ChildMessage (JStr ''initialized'')]))
          = concat (map posted evs)
        \<and> received (service_run tem cm env (evs @ ChildMessage (JStr ''initialized'') # later))
            = concat (map posted evs) @ concat (map posted later))"
proof (intro conjI impI)
  assume "ChildMessage (JStr ''initialized'') \<notin> set evs"
  from nothing_before_initialized [OF this, of tem cm env "[]"]
  show "received (service_run tem cm env evs) = []" by (simp add: service_run_run)
next
  assume a: "ChildMessage (JStr ''initialized'') \<notin> set evs \<and> Forked p \<in> set evs"
  then have n: "ChildMessage (JStr ''initialized'') \<notin> set evs" and f: "Forked p \<in> set evs"
    by blast+
  let ?s = "run tem cm env [] (evs @ [ChildMessage (JStr ''initialized'')])"
  from order_at_initialized(1) [OF n f, of tem cm env "[]"]
  have r: "received ?s = concat (map posted evs)" by simp
  then show "received (service_run tem cm env (evs @ [ChildMessage (JStr ''initialized'')]))
               = concat (map posted evs)"
    by (simp add: service_run_run)
  have "service_run tem cm env (evs @ ChildMessage (JStr ''initialized'') # later)
          = foldl (step tem cm) ?s later"
    by (simp add: service_run_run run_def)
  with flushed_steps [OF order_at_initialized(2) [OF n f, of tem cm env "[]"], of tem cm later] r
  show "received (service_run tem cm env (evs @ ChildMessage (JStr ''initialized'') # later))
          = concat (map posted evs) @ concat (map posted later)"
    by simp
qed

theorem posted_messages_delivered_in_order_witness:
  "ChildMessage (JStr ''initialized'')
     \<notin> set [Forked False, PostMessage (JStr ''a''), ChildMessage (JStr ''ready''),
            PostMessage (JStr ''b'')]
   \<and> Forked False
     \<in> set [Forked False, PostMessage (JStr ''a''), ChildMessage (JStr ''ready''),
            PostMessage (JStr ''b'')]
   \<and> received (service_run example_tem example_console example_env
        [Forked False, PostMessage (JStr ''a''), ChildMessage (JStr ''ready''),
         PostMessage (JStr ''b'')]) = []
   \<and> received (service_run example_tem example_console example_env
        ([Forked False, PostMessage (JStr ''a''), ChildMessage (JStr ''ready''),
          PostMessage (JStr ''b'')] @ [ChildMessage (JStr ''initialized'')]))
       = [JStr ''a'', JStr ''b'']
   \<and> received (service_run example_tem example_console example_env
        ([Forked False, PostMessage (JStr ''a''), ChildMessage (JStr ''ready''),
          PostMessage (JStr ''b'')]
         @ ChildMessage (JStr ''initialized'')
           # [PostMessage (JStr ''c''), ChildMessage (JStr ''initialized'')]))
       = [JStr ''a'', JStr ''b'', JStr ''c'']"
proof -
  let ?evs = "[Forked False, PostMessage (JStr ''a''), ChildMessage (JStr ''ready''),
               PostMessage (JStr ''b'')]"
  let ?later = "[PostMessage (JStr ''c''), ChildMessage (JStr ''initialized'')]"
  have n: "ChildMessage (JStr ''initialized'') \<notin> set ?evs" by simp
  have f: "Forked False \<in> set ?evs" by simp
  note t = posted_messages_delivered_in_order
             [of ?evs example_tem example_console example_env False ?later]
  from t n have a: "received (service_run example_tem example_console example_env ?evs) = []"
    by blast
  from t n f have
    "received (service_run example_tem example_console example_env
                 (?evs @ [ChildMessage (JStr ''initialized'')])) = concat (map posted ?evs)"
    and "received (service_run example_tem example_console example_env
                 (?evs @ ChildMessage (JStr ''initialized'') # ?later))
           = concat (map posted ?evs) @ concat (map posted ?later)"
    by blast+
  then have b: "received (service_run example_tem example_console example_env
                 (?evs @ [ChildMessage (JStr ''initialized'')])) = [JStr ''a'', JStr ''b'']"
    and c: "received (service_run example_tem example_console example_env
                 (?evs @ ChildMessage (JStr ''initialized'') # ?later))
           = [JStr ''a'', JStr ''b'', JStr ''c'']"
    by simp_all
  from n f a b c show ?thesis by blast
qed

subsection \<open>Exits and errors of the child\<close>

text \<open>
  Two unexpected exits with the same code and signal show the crash notification twice:
  \<open>onExit\<close> does not look at \<open>lastExtensionHostError\<close>.
\<close>

theorem exit_notification_repeated:
  "shown (run example_tem example_console example_env []
            [Forked False, ChildExit (JNum 1) JNull, ChildExit (JNum 1) JNull])
     = [(Error, Crash, [ReloadWindowAction]), (Error, Crash, [ReloadWindowAction])]"
  by (simp add: run_def shown_def new_manager_def example_env_def
      startExtensionHostProcess_def forked_def onExit_def emit_def path_set_def)

text \<open>
  Claim C3 (amended): an exit of the child with no earlier \<open>terminate\<close>, outside
  extension development, shows an error notification that offers the reload action,
  at every such exit; after \<open>terminate\<close> an exit shows nothing. The comparison with the
  last reported message belongs to the \<open>error\<close> events of the child: an error whose
  text is the last reported one shows nothing and changes nothing, any other error is
  shown and becomes the last reported one.
\<close>

theorem crash_and_error_notifications:
  "(\<not> terminating s \<and> \<not> isExtensionDevelopmentHost s \<longrightarrow>
      shown (onExit code signal s) = shown s @ [(Error, Crash, [ReloadWindowAction])])
   \<and> (terminating s \<longrightarrow> onExit code signal s = s)
   \<and> (lastExtensionHostError s = Some (tem err) \<longrightarrow> onError tem err s = s)
   \<and> (lastExtensionHostError s \<noteq> Some (tem err) \<longrightarrow>
        shown (onError tem err s) = shown s @ [(Error, ErrorFromHost (tem err), [])]
        \<and> lastExtensionHostError (onError tem err s) = Some (tem err))"
  by (auto simp add: onExit_def onError_def Let_def emit_def shown_def)

theorem crash_and_error_notifications_witness:
  "\<not> terminating (new_manager example_env)
   \<and> \<not> isExtensionDevelopmentHost (new_manager example_env)
   \<and> shown (onExit (JNum 1) JNull (new_manager example_env))
       = shown (new_manager example_env) @ [(Error, Crash, [ReloadWindowAction])]
   \<and> terminating (terminate (new_manager example_env))
   \<and> onExit (JNum 1) JNull (terminate (new_manager example_env))
       = terminate (new_manager example_env)
   \<and> lastExtensionHostError (onError example_tem (JStr ''x'') (new_manager example_env))
       = Some (example_tem (JStr ''x''))
   \<and> onError example_tem (JStr ''x'') (onError example_tem (JStr ''x'') (new_manager example_env))
       = onError example_tem (JStr ''x'') (new_manager example_env)
   \<and> lastExtensionHostError (new_manager example_env) \<noteq> Some (example_tem (JStr ''x''))
   \<and> shown (onError example_tem (JStr ''x'') (new_manager example_env))
       = shown (new_manager example_env) @ [(Error, ErrorFromHost (example_tem (JStr ''x'')), [])]"
proof -
  let ?s = "new_manager example_env"
  have a: "\<not> terminating ?s \<and> \<not> isExtensionDevelopmentHost ?s"
    by (simp add: new_manager_def example_env_def path_set_def)
  have b: "terminating (terminate ?s)"
    by (simp add: terminate_def Let_def send_def emit_def)
  have c: "lastExtensionHostError ?s \<noteq> Some (example_tem (JStr ''x''))"
    by (simp add: new_manager_def)
  from c crash_and_error_notifications [of ?s "JNum 1" JNull example_tem "JStr ''x''"]
  have d: "shown (onError example_tem (JStr ''x'') ?s)
             = shown ?s @ [(Error, ErrorFromHost (example_tem (JStr ''x'')), [])]"
    and e: "lastExtensionHostError (onError example_tem (JStr ''x'') ?s)
             = Some (example_tem (JStr ''x''))"
    by blast+
  from a crash_and_error_notifications [of ?s "JNum 1" JNull example_tem "JStr ''x''"]
  have f: "shown (onExit (JNum 1) JNull ?s) = shown ?s @ [(Error, Crash, [ReloadWindowAction])]"
    by blast
  from b crash_and_error_notifications [of "terminate ?s" "JNum 1" JNull example_tem "JStr ''x''"]
  have g: "onExit (JNum 1) JNull (terminate ?s) = terminate ?s"
    by blast
  from e crash_and_error_notifications
         [of "onError example_tem (JStr ''x'') ?s" "JNum 1" JNull example_tem "JStr ''x''"]
  have h: "onError example_tem (JStr ''x'') (onError example_tem (JStr ''x'') ?s)
             = onError example_tem (JStr ''x'') ?s"
    by blast
  from a b c d e f g h show ?thesis by blast
qed

subsection \<open>Messages of the child that are no sentinel\<close>

text \<open>
  Before the handshake, a message that is neither \<open>ready\<close>, \<open>initialized\<close> nor a log
  entry reaches the application callback.
\<close>

theorem early_message_reaches_callback:
  "delivered (run example_tem example_console example_env [] [Forked False, ChildMessage (JStr ''hello'')])
     = [JStr ''hello'']
   \<and> \<not> extensionHostProcessReady
         (run example_tem example_console example_env [] [Forked False, ChildMessage (JStr ''hello'')])"
  by (simp add: run_def delivered_def new_manager_def example_env_def postMessage_def
      startExtensionHostProcess_def forked_def on_message_def onMessaage_def
      initializeExtensionHost_def send_def emit_def complete_def path_set_def)

text \<open>
  Claim C4 (amended): a message of the child that is neither \<open>ready\<close>, nor \<open>initialized\<close>,
  nor a log entry (type \<open>__$console\<close>) is passed to the application callback, once,
  before the handshake as after it; nothing else happens: no notification is shown and
  nothing is sent to the child.
\<close>

theorem other_message_goes_to_callback:
  assumes "msg \<noteq> JStr ''ready''" and "msg \<noteq> JStr ''initialized''"
    and "\<not> (truthy msg \<and> get_prop msg ''type'' = Inr (JStr ''__$console''))"
  shows "on_message cm msg s = emit (Callback msg) s
       \<and> delivered (on_message cm msg s) = delivered s @ [msg]
       \<and> shown (on_message cm msg s) = shown s
       \<and> received (on_message cm msg s) = received s"
  using assms by (auto simp add: on_message_def onMessaage_def)

theorem other_message_goes_to_callback_witness:
  "JStr ''hello'' \<noteq> JStr ''ready'' \<and> JStr ''hello'' \<noteq> JStr ''initialized''
   \<and> \<not> (truthy (JStr ''hello'') \<and> get_prop (JStr ''hello'') ''type'' = Inr (JStr ''__$console''))
   \<and> delivered (on_message example_console (JStr ''hello'') (startExtensionHostProcess (new_manager example_env)))
       = [JStr ''hello'']"
proof -
  have h1: "JStr ''hello'' \<noteq> JStr ''ready''" by simp
  have h2: "JStr ''hello'' \<noteq> JStr ''initialized''" by simp
  have h3: "\<not> (truthy (JStr ''hello'')
              \<and> get_prop (JStr ''hello'') ''type'' = Inr (JStr ''__$console''))" by simp
  have d: "delivered (startExtensionHostProcess (new_manager example_env)) = []"
    by (simp add: delivered_def startExtensionHostProcess_def new_manager_def)
  from other_message_goes_to_callback
         [OF h1 h2 h3, where cm = example_console
            and s = "startExtensionHostProcess (new_manager example_env)"]
  have "delivered (on_message example_console (JStr ''hello'') (startExtensionHostProcess (new_manager example_env)))
          = delivered (startExtensionHostProcess (new_manager example_env)) @ [JStr ''hello'']"
    by blast
  with d h1 h2 h3 show ?thesis by simp
qed


section \<open>Properties of the local terminal backend\<close>

subsection \<open>The session registry\<close>

lemma calls_on_tell [simp]: "calls_on pty (tell e st) = calls_on pty st @ call_on pty e"
  by (simp add: calls_on_def tell_def)

lemma dispatch_known:
  assumes "ptys st (event_id e) = Some pty"
  shows "dispatch e st =
           (tell (PtyCall pty (event_call e)) st)
             \<lparr>ptys := (if is_exit e then (ptys st)(event_id e := None) else ptys st)\<rparr>"
  using assms by (cases e) (simp_all add: tell_def)

lemma dispatch_unknown:
  assumes "ptys st (event_id e) = None"
  shows "dispatch e st = st"
  using assms by (cases e) simp_all

lemma retired_dispatch:
  assumes "retired pty st"
  shows "retired pty (dispatch e st) \<and> calls_on pty (dispatch e st) = calls_on pty st"
proof (cases "ptys st (event_id e)")
  case None
  with assms show ?thesis by (simp add: dispatch_unknown)
next
  case (Some h)
  from assms Some have "h \<noteq> pty" by (auto simp add: retired_def)
  with assms show ?thesis
    by (simp add: dispatch_known [OF Some] retired_def tell_def calls_on_def)
qed

lemma retired_register:
  assumes "retired pty st"
  shows "retired pty (snd (register i st)) \<and> calls_on pty (snd (register i st)) = calls_on pty st"
  using assms by (auto simp add: register_def retired_def calls_on_def)

lemma retired_step:
  assumes "retired pty st"
  shows "retired pty (registry_step st op) \<and> calls_on pty (registry_step st op) = calls_on pty st"
proof (cases op)
  case (OnEvent e)
  with retired_dispatch [OF assms] show ?thesis by simp
next
  case (CreateProcess slc env sp ee reply)
  show ?thesis
  proof (cases ee)
    case None
    with CreateProcess assms show ?thesis by (simp add: createProcess_def)
  next
    case (Some v)
    let ?s1 = "tell (HostCreateProcess slc env sp) (tell (LogInfo CreateEnv env) st)"
    have s1: "retired pty ?s1 \<and> calls_on pty ?s1 = calls_on pty st"
      using assms by (simp add: retired_def tell_def calls_on_def)
    show ?thesis
    proof (cases reply)
      case None
      with CreateProcess Some s1 show ?thesis by (simp add: createProcess_def Let_def)
    next
      case (Some i)
      with CreateProcess \<open>ee = Some v\<close> s1 retired_register [of pty ?s1 i] show ?thesis
        by (simp add: createProcess_def Let_def split_beta)
    qed
  qed
next
  case (AttachToProcess i rejection)
  let ?s1 = "tell (HostAttach i) st"
  have s1: "retired pty ?s1 \<and> calls_on pty ?s1 = calls_on pty st"
    using assms by (simp add: retired_def tell_def calls_on_def)
  show ?thesis
  proof (cases rejection)
    case None
    with AttachToProcess s1 retired_register [of pty ?s1 i] show ?thesis
      by (simp add: attachToProcess_def Let_def split_beta)
  next
    case (Some x)
    with AttachToProcess s1 show ?thesis
      by (auto simp add: attachToProcess_def Let_def retired_def tell_def calls_on_def
          split: sum.splits)
  qed
qed

lemma retired_steps:
  "retired pty st \<Longrightarrow> calls_on pty (foldl registry_step st ops) = calls_on pty st"
proof (induction ops arbitrary: st)
  case Nil
  then show ?case by simp
next
  case (Cons op ops)
  from retired_step [OF Cons.prems, of op] Cons.IH [of "registry_step st op"]
  show ?case by simp
qed

lemma fresh_register:
  assumes "fresh_handles st"
  shows "fresh_handles (snd (register i st))"
  using assms unfolding fresh_handles_def register_def
  by (auto simp add: less_Suc_eq split: if_splits)

lemma fresh_tell [simp]: "fresh_handles (tell e st) = fresh_handles st"
  by (simp add: fresh_handles_def tell_def)

lemma fresh_dispatch:
  assumes "fresh_handles st"
  shows "fresh_handles (dispatch e st)"
proof (cases "ptys st (event_id e)")
  case None
  with assms show ?thesis by (simp add: dispatch_unknown)
next
  case (Some h)
  from assms show ?thesis
    unfolding dispatch_known [OF Some] fresh_handles_def tell_def
    by (auto split: if_splits)
qed

lemma fresh_step:
  assumes "fresh_handles st"
  shows "fresh_handles (registry_step st op)"
proof (cases op)
  case (OnEvent e)
  with fresh_dispatch [OF assms] show ?thesis by simp
next
  case (CreateProcess slc env sp ee reply)
  with assms show ?thesis
    by (auto simp add: createProcess_def Let_def split_beta fresh_register split: option.splits)
next
  case (AttachToProcess i rejection)
  with assms show ?thesis
    by (auto simp add: attachToProcess_def Let_def split_beta fresh_register
        split: option.splits sum.splits)
qed

lemma fresh_steps:
  "fresh_handles st \<Longrightarrow> fresh_handles (foldl registry_step st ops)"
  by (induction ops arbitrary: st) (simp_all add: fresh_step)

lemma fresh_new: "fresh_handles (new_backend store)"
  by (simp add: fresh_handles_def new_backend_def)

lemma exit_retires:
  assumes "fresh_handles st" and "ptys st i = Some pty"
  shows "retired pty (dispatch (ProcessExit i x) st)"
  using assms unfolding fresh_handles_def retired_def
  by (auto simp add: tell_def)


text \<open>
  Claim C9: an event of the pty host (data, property change, exit, ready, replay, orphan
  question) is passed to the handle registered under its id and leaves the map as it is,
  but for an exit, which removes the id after the handle is told; an event for an id that
  is not in the map changes nothing. After the exit of a registered id, whatever events
  and registrations follow, the removed handle gets no further call.
\<close>

theorem registry_dispatch:
  "(ptys st (event_id e) = Some pty \<longrightarrow>
      trace (dispatch e st) = trace st @ [PtyCall pty (event_call e)]
      \<and> ptys (dispatch e st) = (if is_exit e then (ptys st)(event_id e := None) else ptys st))
   \<and> (ptys st (event_id e) = None \<longrightarrow> dispatch e st = st)
   \<and> (st = foldl registry_step (new_backend store) ops0 \<and> ptys st i = Some pty \<longrightarrow>
        ptys (dispatch (ProcessExit i x) st) i = None
        \<and> calls_on pty (foldl registry_step (dispatch (ProcessExit i x) st) ops1)
            = calls_on pty st @ [HandleExit x])"
proof (intro conjI impI)
  assume a: "ptys st (event_id e) = Some pty"
  show "trace (dispatch e st) = trace st @ [PtyCall pty (event_call e)]"
    by (simp add: dispatch_known [OF a] tell_def)
  show "ptys (dispatch e st) = (if is_exit e then (ptys st)(event_id e := None) else ptys st)"
    by (simp add: dispatch_known [OF a] tell_def)
next
  assume "ptys st (event_id e) = None"
  then show "dispatch e st = st" by (rule dispatch_unknown)
next
  assume a: "st = foldl registry_step (new_backend store) ops0 \<and> ptys st i = Some pty"
  from a have f: "fresh_handles st" by (simp add: fresh_steps fresh_new)
  from a have p: "ptys st i = Some pty" by blast
  from p show "ptys (dispatch (ProcessExit i x) st) i = None" by (simp add: tell_def)
  have "calls_on pty (foldl registry_step (dispatch (ProcessExit i x) st) ops1)
          = calls_on pty (dispatch (ProcessExit i x) st)"
    by (rule retired_steps [OF exit_retires [OF f p]])
  also have "\<dots> = calls_on pty st @ [HandleExit x]"
    using p by (simp add: calls_on_def tell_def)
  finally show "calls_on pty (foldl registry_step (dispatch (ProcessExit i x) st) ops1)
                  = calls_on pty st @ [HandleExit x]" .
qed


theorem registry_dispatch_witness:
  "ptys (foldl registry_step (new_backend Map.empty) [AttachToProcess 7 None]) 7 = Some 0
   \<and> trace (dispatch (ProcessData 7 (JStr ''x''))
               (foldl registry_step (new_backend Map.empty) [AttachToProcess 7 None]))
       = trace (foldl registry_step (new_backend Map.empty) [AttachToProcess 7 None])
           @ [PtyCall 0 (HandleData (JStr ''x''))]
   \<and> ptys (foldl registry_step (new_backend Map.empty) [AttachToProcess 7 None]) 8 = None
   \<and> dispatch (ProcessData 8 (JStr ''x''))
        (foldl registry_step (new_backend Map.empty) [AttachToProcess 7 None])
       = foldl registry_step (new_backend Map.empty) [AttachToProcess 7 None]
   \<and> calls_on 0
        (foldl registry_step
           (dispatch (ProcessExit 7 JUndefined)
              (foldl registry_step (new_backend Map.empty) [AttachToProcess 7 None]))
           [OnEvent (ProcessData 7 (JStr ''late'')), AttachToProcess 7 None,
            OnEvent (ProcessData 7 (JStr ''new''))])
       = calls_on 0 (foldl registry_step (new_backend Map.empty) [AttachToProcess 7 None])
           @ [HandleExit JUndefined]"
proof -
  let ?st = "foldl registry_step (new_backend Map.empty) [AttachToProcess 7 None]"
  let ?ops = "[OnEvent (ProcessData 7 (JStr ''late'')), AttachToProcess 7 None,
               OnEvent (ProcessData 7 (JStr ''new''))]"
  have a: "ptys ?st 7 = Some 0"
    by (simp add: attachToProcess_def register_def tell_def new_backend_def Let_def)
  have b: "ptys ?st 8 = None"
    by (simp add: attachToProcess_def register_def tell_def new_backend_def Let_def)
  from a registry_dispatch [of ?st "ProcessData 7 (JStr ''x'')" 0 Map.empty
                               "[AttachToProcess 7 None]" 7 JUndefined ?ops]
  have c: "trace (dispatch (ProcessData 7 (JStr ''x'')) ?st)
             = trace ?st @ [PtyCall 0 (HandleData (JStr ''x''))]"
    and d: "calls_on 0 (foldl registry_step (dispatch (ProcessExit 7 JUndefined) ?st) ?ops)
             = calls_on 0 ?st @ [HandleExit JUndefined]"
    by simp_all
  from b registry_dispatch [of ?st "ProcessData 8 (JStr ''x'')" 0 Map.empty
                               "[AttachToProcess 7 None]" 7 JUndefined ?ops]
  have e: "dispatch (ProcessData 8 (JStr ''x'')) ?st = ?st"
    by simp
  from a b c d e show ?thesis by blast
qed

subsection \<open>Detaching\<close>

text \<open>
  Claim C8: \<open>acceptDetachInstanceReply\<close> with an undefined \<open>persistentProcessId\<close> does not
  call the pty host, logs one warning and returns normally.
\<close>

theorem detach_without_id_is_rejected:
  "acceptDetachInstanceReply requestId None ok st
     = (Inr (), tell (LogWarn CannotAttach JUndefined) st)
   \<and> filter is_host_detach (trace (snd (acceptDetachInstanceReply requestId None ok st)))
       = filter is_host_detach (trace st)
   \<and> filter is_warn (new_effects st (snd (acceptDetachInstanceReply requestId None ok st)))
       = [LogWarn CannotAttach JUndefined]"
  by (simp add: acceptDetachInstanceReply_def tell_def new_effects_def)

subsection \<open>The health of the pty host\<close>

text \<open>
  Claim C7: a responsive signal while the backend is responsive changes nothing: no log
  entry, no notification closed, no event fired; a responsive signal while it is
  unresponsive logs, closes the notification, fires the event and makes the backend
  responsive, so that a second signal changes nothing more.
\<close>

theorem redundant_responsive_is_noop:
  "(\<not> isPtyHostUnresponsive st \<longrightarrow> onPtyHostResponsive st = st)
   \<and> (isPtyHostUnresponsive st \<longrightarrow>
        trace (onPtyHostResponsive st)
          = trace st @ [LogInfo ResponsiveAgain JUndefined]
              @ (case unresponsiveNotification st of None \<Rightarrow> [] | Some h \<Rightarrow> [CloseNotification h])
              @ [FireResponsive]
        \<and> \<not> isPtyHostUnresponsive (onPtyHostResponsive st)
        \<and> unresponsiveNotification (onPtyHostResponsive st) = None)
   \<and> onPtyHostResponsive (onPtyHostResponsive st) = onPtyHostResponsive st"
  by (auto simp add: onPtyHostResponsive_def close_notification_def tell_def split: option.splits)


theorem redundant_responsive_is_noop_witness:
  "\<not> isPtyHostUnresponsive (new_backend Map.empty)
   \<and> onPtyHostResponsive (new_backend Map.empty) = new_backend Map.empty
   \<and> isPtyHostUnresponsive (onPtyHostUnresponsive (new_backend Map.empty))
   \<and> trace (onPtyHostResponsive (onPtyHostUnresponsive (new_backend Map.empty)))
       = [Prompt 0, FireUnresponsive, LogInfo ResponsiveAgain JUndefined, CloseNotification 0,
          FireResponsive]
   \<and> \<not> isPtyHostUnresponsive (onPtyHostResponsive (onPtyHostUnresponsive (new_backend Map.empty)))"
proof -
  let ?st = "new_backend Map.empty"
  let ?su = "onPtyHostUnresponsive ?st"
  have a: "\<not> isPtyHostUnresponsive ?st" by (simp add: new_backend_def)
  have b: "isPtyHostUnresponsive ?su" by (simp add: onPtyHostUnresponsive_def tell_def)
  have t: "trace ?su = [Prompt 0, FireUnresponsive]"
    and n: "unresponsiveNotification ?su = Some 0"
    by (simp_all add: onPtyHostUnresponsive_def tell_def new_backend_def)
  from a redundant_responsive_is_noop [of ?st] have c: "onPtyHostResponsive ?st = ?st"
    by blast
  from b redundant_responsive_is_noop [of ?su]
  have "trace (onPtyHostResponsive ?su)
          = trace ?su @ [LogInfo ResponsiveAgain JUndefined]
              @ (case unresponsiveNotification ?su of None \<Rightarrow> []
                 | Some h \<Rightarrow> [CloseNotification h])
              @ [FireResponsive]"
    and d: "\<not> isPtyHostUnresponsive (onPtyHostResponsive ?su)"
    by blast+
  then have e: "trace (onPtyHostResponsive ?su)
          = [Prompt 0, FireUnresponsive, LogInfo ResponsiveAgain JUndefined,
             CloseNotification 0, FireResponsive]"
    by (simp add: t n)
  from a b c d e show ?thesis by blast
qed

subsection \<open>Revival\<close>

lemma get_set_prop: "set_prop x k v = Inr y \<Longrightarrow> get_prop y k = Inr v"
  by (cases x) (auto simp add: update_conv')

lemma wrong_format_False:
  assumes "wrong_format p = Inr False"
  shows "\<exists>v s. field p ''version'' = Some v \<and> field p ''state'' = Some s \<and> isArray s
               \<and> get_prop p ''version'' = Inr v \<and> get_prop p ''state'' = Inr s"
  using assms
  by (cases p) (auto simp add: wrong_format_def bind_exn_def split: if_splits option.splits)

lemma wrong_format_object:
  assumes "is_object p"
  shows "wrong_format p = Inr (format_missing p)"
  using assms
  by (cases p)
     (auto simp add: wrong_format_def bind_exn_def format_missing_def split: option.splits)

lemma wrong_format_primitive:
  assumes "\<not> is_object p"
  shows "wrong_format p = Inl TypeError"
  using assms by (cases p) (simp_all add: wrong_format_def bind_exn_def)

lemma get_prop_field:
  assumes "field p k = Some v"
  shows "get_prop p k = Inr v"
  using assms by (cases p) simp_all

text \<open>
  The body of the try block on a persisted value that is not valid: it returns after
  one warning when a warning is reached, and throws a TypeError before anything is
  logged otherwise.
\<close>

lemma invalid_body_warned:
  assumes "json_parse sv blob = Some p" and "invalid_state p" and "warned p"
  shows "\<exists>w. revive_body sv blob st = (Returned, tell (LogWarn w p) st)"
proof (cases "format_missing p")
  case True
  from assms(3) have "is_object p" by (simp add: warned_def)
  from wrong_format_object [OF this] True assms(1)
  have "revive_body sv blob st = (Returned, tell (LogWarn WrongFormat p) st)"
    by (simp add: revive_body_def)
  then show ?thesis ..
next
  case False
  from assms(3) have o: "is_object p" by (simp add: warned_def)
  from False obtain v s where
    f: "field p ''version'' = Some v" "field p ''state'' = Some s"
    by (auto simp add: format_missing_def)
  from assms(2) False f have v: "v \<noteq> JNum 1"
    by (auto simp add: invalid_state_def format_missing_def)
  from assms(3) False f have c: "string_convertible v"
    by (simp add: warned_def version_printable_def)
  from wrong_format_object [OF o] False assms(1) get_prop_field [OF f(1)]
    get_prop_field [OF f(2)] v c
  have "revive_body sv blob st = (Returned, tell (LogWarn (WrongVersion v) p) st)"
    by (simp add: revive_body_def bind_exn_def)
  then show ?thesis ..
qed

lemma invalid_body_not_warned:
  assumes "json_parse sv blob = Some p" and "invalid_state p" and "\<not> warned p"
  shows "revive_body sv blob st = (Threw TypeError, st)"
proof (cases "is_object p")
  case False
  from wrong_format_primitive [OF this] assms(1) show ?thesis
    by (simp add: revive_body_def)
next
  case True
  with assms(3) have m: "\<not> format_missing p" and c: "\<not> version_printable p"
    by (simp_all add: warned_def)
  from m obtain v s where
    f: "field p ''version'' = Some v" "field p ''state'' = Some s"
    by (auto simp add: format_missing_def)
  from assms(2) m f have v: "v \<noteq> JNum 1"
    by (auto simp add: invalid_state_def format_missing_def)
  from c f have n: "\<not> string_convertible v" by (simp add: version_printable_def)
  from wrong_format_object [OF True] m assms(1) get_prop_field [OF f(1)]
    get_prop_field [OF f(2)] v n
  show ?thesis by (simp add: revive_body_def bind_exn_def)
qed

lemma invalid_blob_warned:
  assumes "storage st TerminalBufferState = Some blob" and "blob \<noteq> []"
    and "json_parse sv blob = Some p" and "invalid_state p" and "warned p"
  shows "\<exists>w. getTerminalLayoutInfo sv st = (Inr JUndefined, tell (LogWarn w p) st)"
proof -
  from invalid_body_warned [OF assms(3,4,5), of st] obtain w where
    "revive_body sv blob st = (Returned, tell (LogWarn w p) st)" ..
  with assms(1,2) have
    "getTerminalLayoutInfo sv st = (Inr JUndefined, tell (LogWarn w p) st)"
    by (simp add: getTerminalLayoutInfo_def)
  then show ?thesis ..
qed

lemma invalid_blob_not_warned:
  assumes "storage st TerminalBufferState = Some blob" and "blob \<noteq> []"
    and "json_parse sv blob = Some p" and "invalid_state p" and "\<not> warned p"
  shows "getTerminalLayoutInfo sv st = query_host sv st"
  using invalid_body_not_warned [OF assms(3,4,5), of st] assms(1,2)
  by (simp add: getTerminalLayoutInfo_def)

lemma quiet_refl: "quiet st st"
  by (simp add: quiet_def) (rule exI [of _ "[]"], simp)

lemma quiet_tell:
  assumes "quiet st st1" and "\<not> is_revive e"
  shows "quiet st (tell e st1)"
proof -
  from assms(1) obtain ls where "st1 = st\<lparr>trace := trace st @ ls\<rparr>" and "\<not> list_ex is_revive ls"
    by (auto simp add: quiet_def)
  with assms(2) have "tell e st1 = st\<lparr>trace := trace st @ (ls @ [e])\<rparr> \<and> \<not> list_ex is_revive (ls @ [e])"
    by (simp add: tell_def)
  then show ?thesis unfolding quiet_def by blast
qed

lemma quiet_trans:
  assumes "quiet st st1" and "quiet st1 st2"
  shows "quiet st st2"
proof -
  from assms(1) obtain ls where a: "st1 = st\<lparr>trace := trace st @ ls\<rparr>" "\<not> list_ex is_revive ls"
    by (auto simp add: quiet_def)
  from assms(2) obtain ms where b: "st2 = st1\<lparr>trace := trace st1 @ ms\<rparr>" "\<not> list_ex is_revive ms"
    by (auto simp add: quiet_def)
  from a b have "st2 = st\<lparr>trace := trace st @ (ls @ ms)\<rparr> \<and> \<not> list_ex is_revive (ls @ ms)"
    by simp
  then show ?thesis unfolding quiet_def by blast
qed

lemma quiet_entries:
  "revive_entries sv r es st = (res, st1) \<Longrightarrow> quiet st st1"
proof (induction es arbitrary: st res st1)
  case Nil
  then show ?case by (simp add: quiet_refl)
next
  case (Cons e es)
  show ?case
  proof (cases "bind_exn (get_prop e ''processLaunchOptions'') (\<lambda>plo. get_prop plo ''env'')")
    case (Inl x)
    with Cons.prems show ?thesis by (simp add: quiet_refl)
  next
    case captured: (Inr c)
    let ?st1 = "tell (LogInfo EnvBefore c) st"
    have q1: "quiet st ?st1" by (simp add: quiet_tell quiet_refl)
    show ?thesis
    proof (cases "bind_exn (get_prop e ''shellLaunchConfig'') (resolveEnvironmentForRevive sv r)")
      case (Inl x)
      with Cons.prems captured q1 show ?thesis by (simp add: Let_def)
    next
      case fresh: (Inr f)
      let ?st2 = "tell (LogInfo FreshEnv f) ?st1"
      have q2: "quiet st ?st2" by (simp add: quiet_tell q1)
      show ?thesis
      proof (cases "bind_exn (get_prop e ''processLaunchOptions'') (\<lambda>plo.
                      bind_exn (set_prop plo ''env'' f) (set_prop e ''processLaunchOptions''))")
        case (Inl x)
        with Cons.prems captured fresh q2 show ?thesis by (simp add: Let_def)
      next
        case (Inr e1)
        let ?st3 = "tell (LogInfo EnvAfter f) ?st2"
        have q3: "quiet st ?st3" by (simp add: quiet_tell q2)
        obtain res2 st4 where r: "revive_entries sv r es ?st3 = (res2, st4)"
          by (cases "revive_entries sv r es ?st3")
        from Cons.IH [OF r] have "quiet ?st3 st4" .
        with q3 have q4: "quiet st st4" by (rule quiet_trans)
        from Cons.prems captured fresh Inr r have "st1 = st4"
          by (cases res2) (simp_all add: Let_def)
        with q4 show ?thesis by simp
      qed
    qed
  qed
qed

lemma env_of_updated:
  assumes "bind_exn (get_prop e ''processLaunchOptions'') (\<lambda>plo.
             bind_exn (set_prop plo ''env'' f) (set_prop e ''processLaunchOptions'')) = Inr e1"
  shows "env_of e1 = Inr f"
proof -
  from assms obtain plo plo1 where
    a: "get_prop e ''processLaunchOptions'' = Inr plo"
    and b: "set_prop plo ''env'' f = Inr plo1"
    and c: "set_prop e ''processLaunchOptions'' plo1 = Inr e1"
    by (auto simp add: bind_exn_def split: sum.splits)
  from get_set_prop [OF c] get_set_prop [OF b] show ?thesis
    by (simp add: env_of_def bind_exn_def)
qed

lemma entries_fresh:
  "revive_entries sv r es st = (Inr es1, st1) \<Longrightarrow>
   list_all2 (\<lambda>e e1. \<exists>f. fresh_env sv r e = Inr f \<and> env_of e1 = Inr f) es es1"
proof (induction es arbitrary: st es1 st1)
  case Nil
  then show ?case by simp
next
  case (Cons e es)
  from Cons.prems obtain c where captured:
    "bind_exn (get_prop e ''processLaunchOptions'') (\<lambda>plo. get_prop plo ''env'') = Inr c"
    by (auto split: sum.splits)
  from Cons.prems captured obtain f where fresh:
    "bind_exn (get_prop e ''shellLaunchConfig'') (resolveEnvironmentForRevive sv r) = Inr f"
    by (auto simp add: Let_def split: sum.splits)
  from Cons.prems captured fresh obtain e1 where upd:
    "bind_exn (get_prop e ''processLaunchOptions'') (\<lambda>plo.
       bind_exn (set_prop plo ''env'' f) (set_prop e ''processLaunchOptions'')) = Inr e1"
    by (auto simp add: Let_def split: sum.splits)
  let ?st3 = "tell (LogInfo EnvAfter f) (tell (LogInfo FreshEnv f) (tell (LogInfo EnvBefore c) st))"
  from Cons.prems captured fresh upd obtain rest where
    r: "revive_entries sv r es ?st3 = (Inr rest, st1)" and es1: "es1 = e1 # rest"
    by (auto simp add: Let_def split: sum.splits prod.splits)
  from Cons.IH [OF r] env_of_updated [OF upd] fresh es1 show ?case
    by (simp add: fresh_env_def)
qed

lemma quiet_storage: "quiet st st1 \<Longrightarrow> storage st1 = storage st"
  by (auto simp add: quiet_def)

lemma quiet_new_effects:
  "quiet st st1 \<Longrightarrow> \<exists>ls. trace st1 = trace st @ ls \<and> \<not> list_ex is_revive ls"
  by (auto simp add: quiet_def)

text \<open>The body of the try block either makes no revival call or reaches it.\<close>

lemma revive_body_cases:
  assumes "revive_body sv blob st = (c, st1)"
  shows "quiet st st1
       \<or> (\<exists>p s penv st0 parsed.
            json_parse sv blob = Some p \<and> field p ''version'' = Some (JNum 1)
            \<and> field p ''state'' = Some s \<and> isArray s \<and> profile_environment sv = Some penv
            \<and> revive_entries sv (revive_resolver sv penv) (elements s) st = (Inr parsed, st0)
            \<and> revive_and_clear sv parsed st0 = (c, st1))"
proof (cases "json_parse sv blob")
  case None
  with assms show ?thesis by (simp add: revive_body_def quiet_refl)
next
  case (Some p)
  show ?thesis
  proof (cases "wrong_format p")
    case (Inl e)
    with assms Some show ?thesis by (simp add: revive_body_def quiet_refl)
  next
    case (Inr b)
    show ?thesis
    proof (cases b)
      case True
      with assms Some Inr have "st1 = tell (LogWarn WrongFormat p) st"
        by (simp add: revive_body_def)
      then show ?thesis by (simp add: quiet_tell quiet_refl)
    next
      case False
      with Inr wrong_format_False [of p] obtain v s where
        f: "field p ''version'' = Some v" "field p ''state'' = Some s" "isArray s"
           "get_prop p ''version'' = Inr v" "get_prop p ''state'' = Inr s"
        by auto
      show ?thesis
      proof (cases "v = JNum 1")
        case v: False
        with assms Some Inr False f
        have "st1 = tell (LogWarn (WrongVersion v) p) st \<or> st1 = st"
          by (auto simp add: revive_body_def bind_exn_def split: if_splits)
        then show ?thesis by (auto simp add: quiet_tell quiet_refl)
      next
        case v: True
        show ?thesis
        proof (cases "profile_environment sv")
          case None
          with assms Some Inr False f v show ?thesis
            by (simp add: revive_body_def bind_exn_def quiet_refl)
        next
          case penv: (Some penv)
          obtain r0 st0 where
            e: "revive_entries sv (revive_resolver sv penv) (elements s) st = (r0, st0)"
            by (cases "revive_entries sv (revive_resolver sv penv) (elements s) st")
          show ?thesis
          proof (cases r0)
            case (Inl x)
            with assms Some Inr False f v penv e have "st1 = st0"
              by (simp add: revive_body_def bind_exn_def revive_resolver_def)
            with quiet_entries [OF e] show ?thesis by simp
          next
            case parsed: (Inr parsed)
            with assms Some Inr False f v penv e
            have "revive_and_clear sv parsed st0 = (c, st1)"
              by (simp add: revive_body_def bind_exn_def revive_resolver_def)
            with Some f v penv e parsed show ?thesis by blast
          qed
        qed
      qed
    qed
  qed
qed

lemma revive_and_clear_trace:
  assumes "revive_and_clear sv parsed st0 = (c, st1)"
  shows "c \<noteq> Returned
       \<and> (\<exists>rest. trace st1 = trace st0 @ HostRevive parsed # rest \<and> \<not> list_ex is_revive rest)"
  using assms
  by (auto simp add: revive_and_clear_def Let_def tell_def storage_remove_def
      split: if_splits option.splits)

lemma query_host_result:
  "query_host sv st = (res, st1) \<Longrightarrow> st1 = tell (HostGetLayout (workspace_id sv)) st"
  by (auto simp add: query_host_def)

lemma no_revive_quiet:
  assumes "quiet st st1"
  shows "\<not> list_ex is_revive (new_effects st st1)"
  using assms by (auto simp add: quiet_def new_effects_def)

text \<open>
  When a call of \<open>getTerminalLayoutInfo\<close> makes a revival call, the persisted state was
  valid, every entry was re-resolved, and the call ends with the query of the host.
\<close>

lemma revived_structure:
  assumes "getTerminalLayoutInfo sv st = (res, st2)"
    and "list_ex is_revive (new_effects st st2)"
  shows "\<exists>blob p s penv st0 parsed c st1.
           storage st TerminalBufferState = Some blob \<and> blob \<noteq> []
           \<and> json_parse sv blob = Some p \<and> field p ''version'' = Some (JNum 1)
           \<and> field p ''state'' = Some s \<and> isArray s \<and> profile_environment sv = Some penv
           \<and> revive_entries sv (revive_resolver sv penv) (elements s) st = (Inr parsed, st0)
           \<and> revive_and_clear sv parsed st0 = (c, st1)
           \<and> query_host sv st1 = (res, st2)"
proof (cases "storage st TerminalBufferState")
  case None
  with assms(1) have "st2 = tell (HostGetLayout (workspace_id sv)) st"
    by (simp add: getTerminalLayoutInfo_def query_host_def)
  with assms(2) show ?thesis by (simp add: new_effects_def tell_def)
next
  case (Some blob)
  show ?thesis
  proof (cases "blob = []")
    case True
    with Some assms(1) have "st2 = tell (HostGetLayout (workspace_id sv)) st"
      by (simp add: getTerminalLayoutInfo_def query_host_def)
    with assms(2) show ?thesis by (simp add: new_effects_def tell_def)
  next
    case False
    obtain c st1 where b: "revive_body sv blob st = (c, st1)"
      by (cases "revive_body sv blob st")
    have after: "c = Returned \<and> st2 = st1 \<or> query_host sv st1 = (res, st2)"
      using assms(1) Some False b
      by (cases c) (simp_all add: getTerminalLayoutInfo_def)
    from revive_body_cases [OF b] show ?thesis
    proof
      assume q: "quiet st st1"
      from after have "quiet st st2"
      proof
        assume "c = Returned \<and> st2 = st1"
        with q show ?thesis by simp
      next
        assume "query_host sv st1 = (res, st2)"
        from query_host_result [OF this] q show ?thesis by (simp add: quiet_tell)
      qed
      from no_revive_quiet [OF this] assms(2) show ?thesis by simp
    next
      assume "\<exists>p s penv st0 parsed.
            json_parse sv blob = Some p \<and> field p ''version'' = Some (JNum 1)
            \<and> field p ''state'' = Some s \<and> isArray s \<and> profile_environment sv = Some penv
            \<and> revive_entries sv (revive_resolver sv penv) (elements s) st = (Inr parsed, st0)
            \<and> revive_and_clear sv parsed st0 = (c, st1)"
      then obtain p s penv st0 parsed where
        k: "json_parse sv blob = Some p" "field p ''version'' = Some (JNum 1)"
           "field p ''state'' = Some s" "isArray s" "profile_environment sv = Some penv"
           "revive_entries sv (revive_resolver sv penv) (elements s) st = (Inr parsed, st0)"
           "revive_and_clear sv parsed st0 = (c, st1)"
        by blast
      from revive_and_clear_trace [OF k(7)] after have "query_host sv st1 = (res, st2)"
        by blast
      with Some False k show ?thesis by blast
    qed
  qed
qed

text \<open>The effects of such a call: logs, the revival call, what follows it, the query.\<close>

lemma revived_effects:
  assumes "revive_entries sv r es st = (Inr parsed, st0)"
    and "revive_and_clear sv parsed st0 = (c, st1)"
    and "query_host sv st1 = (res, st2)"
  shows "\<exists>before rest. new_effects st st2 = before @ HostRevive parsed # rest
           \<and> \<not> list_ex is_revive before \<and> \<not> list_ex is_revive rest
           \<and> new_effects st0 st2 = HostRevive parsed # rest"
proof -
  from quiet_new_effects [OF quiet_entries [OF assms(1)]] obtain ls where
    a: "trace st0 = trace st @ ls" "\<not> list_ex is_revive ls" by blast
  from revive_and_clear_trace [OF assms(2)] obtain rest where
    b: "trace st1 = trace st0 @ HostRevive parsed # rest" "\<not> list_ex is_revive rest" by blast
  from query_host_result [OF assms(3)] have
    c: "trace st2 = trace st1 @ [HostGetLayout (workspace_id sv)]" by (simp add: tell_def)
  from a b c have "new_effects st st2 = ls @ HostRevive parsed # (rest @ [HostGetLayout (workspace_id sv)])"
    and "new_effects st0 st2 = HostRevive parsed # (rest @ [HostGetLayout (workspace_id sv)])"
    by (simp_all add: new_effects_def)
  with a(2) b(2) show ?thesis by auto
qed

lemma revive_call_unique:
  assumes "xs = before @ HostRevive parsed # rest"
    and "\<not> list_ex is_revive before" and "\<not> list_ex is_revive rest"
    and "HostRevive q \<in> set xs"
  shows "q = parsed"
  using assms by (auto simp add: list_ex_iff)

lemmas example_defs =
  getTerminalLayoutInfo_def revive_body_def wrong_format_def bind_exn_def of_reply_def
  resolveEnvironmentForRevive_def revive_and_clear_def storage_remove_def query_host_def
  tell_def new_backend_def example_store_def example_services_def example_parse_def
  example_backend_def blob_null_def blob_version1_def blob_version2_def blob_layout_def
  blob_version_object_def entry1_def entry1_revived_def new_effects_def Let_def

lemma example_null:
  "fst (getTerminalLayoutInfo (example_services True) (example_backend blob_null None))
     = Inr (JObj [(''tabs'', JArr [] [])])
   \<and> trace (snd (getTerminalLayoutInfo (example_services True) (example_backend blob_null None)))
     = [HostGetLayout ''w'']"
  by (simp add: example_defs)

lemma example_revive:
  "trace (snd (getTerminalLayoutInfo (example_services ok)
                 (example_backend blob_version1 (Some blob_layout))))
     = [LogInfo EnvBefore (JObj [(''OLD'', JStr ''1'')]),
        LogInfo FreshEnv (JObj [(''NEW'', JStr ''2''), (''EXTRA'', JStr ''3'')]),
        LogInfo EnvAfter (JObj [(''NEW'', JStr ''2''), (''EXTRA'', JStr ''3'')]),
        HostRevive [entry1_revived],
        StorageRemove TerminalBufferState,
        HostSetLayout (JObj [(''workspaceId'', JStr ''w''), (''tabs'', JArr [] [])])]
       @ (if ok then [StorageRemove TerminalLayoutInfo] else [])
       @ [HostGetLayout ''w'']
   \<and> storage (snd (getTerminalLayoutInfo (example_services ok)
                 (example_backend blob_version1 (Some blob_layout)))) TerminalLayoutInfo
     = (if ok then None else Some blob_layout)"
  by (simp add: example_defs)

lemma resolve_cases:
  assumes "resolveEnvironmentForRevive sv r slc = Inr f"
  shows "\<exists>base env. base_environment sv slc = Some base
           \<and> createTerminalEnvironment sv slc (platform_env sv) r base = Some env
           \<and> (if \<not> flag slc ''strictEnv'' \<and> \<not> flag slc ''hideFromUser''
               then applyToProcessEnvironment sv env r = Some f else f = env)"
  using assms
  by (auto simp add: resolveEnvironmentForRevive_def base_environment_def platform_env_def
      flag_def bind_exn_def of_reply_def Let_def split: sum.splits option.splits if_splits)

lemma revive_and_clear_ok:
  assumes "revive_and_clear sv parsed st0 = (c, st1)" and "reviveTerminalProcesses sv parsed"
  shows "storage st1 TerminalBufferState = None
    \<and> (\<forall>l v. storage st0 TerminalLayoutInfo = Some l \<and> l \<noteq> [] \<and> json_parse sv l = Some v
             \<and> host_setTerminalLayoutInfo sv v \<longrightarrow>
          storage st1 TerminalLayoutInfo = None
          \<and> trace st1 = trace st0 @ [HostRevive parsed, StorageRemove TerminalBufferState,
                                      HostSetLayout v, StorageRemove TerminalLayoutInfo])
    \<and> (\<forall>l v. storage st0 TerminalLayoutInfo = Some l \<and> l \<noteq> [] \<and> json_parse sv l = Some v
             \<and> \<not> host_setTerminalLayoutInfo sv v \<longrightarrow>
          storage st1 TerminalLayoutInfo = Some l
          \<and> trace st1 = trace st0 @ [HostRevive parsed, StorageRemove TerminalBufferState,
                                      HostSetLayout v])
    \<and> (\<forall>l. storage st0 TerminalLayoutInfo = Some l \<and> (l = [] \<or> json_parse sv l = None) \<longrightarrow>
          storage st1 TerminalLayoutInfo = Some l
          \<and> trace st1 = trace st0 @ [HostRevive parsed, StorageRemove TerminalBufferState])
    \<and> (storage st0 TerminalLayoutInfo = None \<longrightarrow>
          storage st1 TerminalLayoutInfo = None
          \<and> trace st1 = trace st0 @ [HostRevive parsed, StorageRemove TerminalBufferState])"
  using assms
  by (auto simp add: revive_and_clear_def Let_def tell_def storage_remove_def
      split: if_splits option.splits)

lemma no_state_no_revive:
  assumes "storage st TerminalBufferState = None"
  shows "\<not> list_ex is_revive (new_effects st (snd (getTerminalLayoutInfo sv st)))"
  using assms by (simp add: getTerminalLayoutInfo_def query_host_def tell_def new_effects_def)

lemma example_revive_call:
  "HostRevive [entry1_revived]
     \<in> set (new_effects (example_backend blob_version1 (Some blob_layout))
              (snd (getTerminalLayoutInfo (example_services ok)
                      (example_backend blob_version1 (Some blob_layout)))))"
proof -
  have "new_effects (example_backend blob_version1 (Some blob_layout))
          (snd (getTerminalLayoutInfo (example_services ok)
                  (example_backend blob_version1 (Some blob_layout))))
        = trace (snd (getTerminalLayoutInfo (example_services ok)
                  (example_backend blob_version1 (Some blob_layout))))"
    by (simp add: new_effects_def example_backend_def new_backend_def)
  with example_revive [of ok] show ?thesis by simp
qed


lemma example_stored:
  "storage (example_backend blob layout) TerminalBufferState = Some blob
   \<and> trace (example_backend blob layout) = []"
  by (simp add: example_backend_def new_backend_def example_store_def)

lemma example_parsed:
  "json_parse (example_services ok) blob_version2
     = Some (JObj [(''version'', JNum 2), (''state'', JArr [] [])])
   \<and> json_parse (example_services ok) blob_version_object
     = Some (JObj [(''version'', JObj [(''toString'', JNum 0)]), (''state'', JArr [] [])])
   \<and> json_parse (example_services ok) blob_null = Some JNull"
  by (simp add: example_services_def example_parse_def blob_version2_def blob_null_def
      blob_version1_def blob_version_object_def)

text \<open>
  A persisted state that parses to \<open>null\<close> has no \<open>version\<close>, and no warning is logged:
  \<open>'version' in null\<close> throws, and the exception is swallowed.
\<close>

theorem null_state_no_warning:
  "storage (example_backend blob_null None) TerminalBufferState = Some blob_null
   \<and> json_parse (example_services True) blob_null = Some JNull
   \<and> field JNull ''version'' = None
   \<and> filter is_warn
        (trace (snd (getTerminalLayoutInfo (example_services True)
                       (example_backend blob_null None)))) = []"
  using example_null
  by (simp add: example_backend_def new_backend_def example_store_def example_services_def
      example_parse_def)


text \<open>
  Claim C2 (amended): when the persisted state parses to a value that is missing
  \<open>version\<close>, or missing \<open>state\<close>, or whose \<open>state\<close> is not an array, or whose \<open>version\<close> is
  not 1, \<open>getTerminalLayoutInfo\<close> does not call \<open>reviveTerminalProcesses\<close> and leaves the
  storage as it is. When the value is an object (or an array) and, if the format is right,
  its version can be converted to a string, the call logs one warning and nothing else,
  and resolves to \<open>undefined\<close>. Otherwise (the value is a primitive, or the version is an
  object that cannot be converted to a string) the validation throws a TypeError that is
  swallowed: no warning is logged and the call goes on as if nothing was persisted, with
  the query of the pty host.
\<close>

theorem invalid_state_not_revived:
  assumes "storage st TerminalBufferState = Some blob" and "blob \<noteq> []"
    and "json_parse sv blob = Some p" and "invalid_state p"
  shows "\<not> list_ex is_revive (new_effects st (snd (getTerminalLayoutInfo sv st)))
       \<and> storage (snd (getTerminalLayoutInfo sv st)) = storage st
       \<and> (warned p \<longrightarrow>
            fst (getTerminalLayoutInfo sv st) = Inr JUndefined
            \<and> (\<exists>w. new_effects st (snd (getTerminalLayoutInfo sv st)) = [LogWarn w p]))
       \<and> (\<not> warned p \<longrightarrow>
            getTerminalLayoutInfo sv st = query_host sv st
            \<and> \<not> list_ex is_warn (new_effects st (snd (getTerminalLayoutInfo sv st))))"
proof (cases "warned p")
  case True
  from invalid_blob_warned [OF assms True] obtain w where
    "getTerminalLayoutInfo sv st = (Inr JUndefined, tell (LogWarn w p) st)" ..
  with True show ?thesis by (simp add: tell_def new_effects_def)
next
  case False
  from invalid_blob_not_warned [OF assms False] False show ?thesis
    by (simp add: query_host_def tell_def new_effects_def)
qed


theorem invalid_state_not_revived_witness:
  "storage (example_backend blob_version2 None) TerminalBufferState = Some blob_version2
   \<and> blob_version2 \<noteq> []
   \<and> json_parse (example_services True) blob_version2
       = Some (JObj [(''version'', JNum 2), (''state'', JArr [] [])])
   \<and> invalid_state (JObj [(''version'', JNum 2), (''state'', JArr [] [])])
   \<and> warned (JObj [(''version'', JNum 2), (''state'', JArr [] [])])
   \<and> fst (getTerminalLayoutInfo (example_services True) (example_backend blob_version2 None))
       = Inr JUndefined
   \<and> storage (snd (getTerminalLayoutInfo (example_services True)
                      (example_backend blob_version2 None)))
       = storage (example_backend blob_version2 None)
   \<and> storage (example_backend blob_version_object None) TerminalBufferState
       = Some blob_version_object
   \<and> blob_version_object \<noteq> []
   \<and> json_parse (example_services True) blob_version_object
       = Some (JObj [(''version'', JObj [(''toString'', JNum 0)]), (''state'', JArr [] [])])
   \<and> invalid_state
        (JObj [(''version'', JObj [(''toString'', JNum 0)]), (''state'', JArr [] [])])
   \<and> \<not> warned (JObj [(''version'', JObj [(''toString'', JNum 0)]), (''state'', JArr [] [])])
   \<and> getTerminalLayoutInfo (example_services True) (example_backend blob_version_object None)
       = query_host (example_services True) (example_backend blob_version_object None)
   \<and> storage (snd (getTerminalLayoutInfo (example_services True)
                      (example_backend blob_version_object None)))
       = storage (example_backend blob_version_object None)"
proof -
  let ?sv = "example_services True"
  let ?p = "JObj [(''version'', JNum 2), (''state'', JArr [] [])]"
  let ?q = "JObj [(''version'', JObj [(''toString'', JNum 0)]), (''state'', JArr [] [])]"
  have a: "storage (example_backend blob_version2 None) TerminalBufferState = Some blob_version2"
    by (simp add: example_stored)
  have b: "blob_version2 \<noteq> []" by (simp add: blob_version2_def)
  have c: "json_parse ?sv blob_version2 = Some ?p" by (simp add: example_parsed)
  have d: "invalid_state ?p" by (simp add: invalid_state_def)
  have e: "warned ?p" by (simp add: warned_def version_printable_def)
  have a': "storage (example_backend blob_version_object None) TerminalBufferState
              = Some blob_version_object"
    by (simp add: example_stored)
  have b': "blob_version_object \<noteq> []" by (simp add: blob_version_object_def)
  have c': "json_parse ?sv blob_version_object = Some ?q" by (simp add: example_parsed)
  have d': "invalid_state ?q" by (simp add: invalid_state_def)
  have e': "\<not> warned ?q" by (simp add: warned_def version_printable_def format_missing_def)
  from invalid_state_not_revived [OF a b c d] e
  have f: "fst (getTerminalLayoutInfo ?sv (example_backend blob_version2 None)) = Inr JUndefined"
    and g: "storage (snd (getTerminalLayoutInfo ?sv (example_backend blob_version2 None)))
              = storage (example_backend blob_version2 None)"
    by blast+
  from invalid_state_not_revived [OF a' b' c' d'] e'
  have f': "getTerminalLayoutInfo ?sv (example_backend blob_version_object None)
              = query_host ?sv (example_backend blob_version_object None)"
    and g': "storage (snd (getTerminalLayoutInfo ?sv (example_backend blob_version_object None)))
              = storage (example_backend blob_version_object None)"
    by blast+
  from a b c d e f g a' b' c' d' e' f' g' show ?thesis by blast
qed


text \<open>
  With a persisted state that parses to \<open>null\<close>, which has no \<open>state\<close>,
  \<open>getTerminalLayoutInfo\<close> queries the pty host and returns its answer.
\<close>

theorem null_state_queries_host:
  "storage (example_backend blob_null None) TerminalBufferState = Some blob_null
   \<and> json_parse (example_services True) blob_null = Some JNull
   \<and> field JNull ''state'' = None
   \<and> fst (getTerminalLayoutInfo (example_services True) (example_backend blob_null None))
       = Inr (JObj [(''tabs'', JArr [] [])])
   \<and> trace (snd (getTerminalLayoutInfo (example_services True) (example_backend blob_null None)))
       = [HostGetLayout ''w'']"
  using example_null
  by (simp add: example_backend_def new_backend_def example_store_def example_services_def
      example_parse_def)


text \<open>
  Claim C10 (amended): when the persisted state fails the validation (missing \<open>version\<close>
  or \<open>state\<close>, \<open>state\<close> not an array, \<open>version\<close> not 1) and the validation reaches its
  warning (the value is an object or an array and, if the format is right, its version
  can be converted to a string), \<open>getTerminalLayoutInfo\<close> returns \<open>undefined\<close> and never
  queries the pty host's \<open>getTerminalLayoutInfo\<close>. When the validation throws instead (the
  value is a primitive, or the version cannot be converted to a string), the call does
  nothing but query the pty host, and its result is the answer of the pty host.
\<close>

theorem invalid_state_skips_layout_query:
  assumes "storage st TerminalBufferState = Some blob" and "blob \<noteq> []"
    and "json_parse sv blob = Some p" and "invalid_state p"
  shows "(warned p \<longrightarrow>
            fst (getTerminalLayoutInfo sv st) = Inr JUndefined
            \<and> \<not> list_ex is_layout_query (new_effects st (snd (getTerminalLayoutInfo sv st))))
       \<and> (\<not> warned p \<longrightarrow>
            fst (getTerminalLayoutInfo sv st)
              = of_reply Rejected (host_getTerminalLayoutInfo sv (workspace_id sv))
            \<and> new_effects st (snd (getTerminalLayoutInfo sv st))
              = [HostGetLayout (workspace_id sv)])"
proof (cases "warned p")
  case True
  from invalid_blob_warned [OF assms True] obtain w where
    "getTerminalLayoutInfo sv st = (Inr JUndefined, tell (LogWarn w p) st)" ..
  with True show ?thesis by (simp add: tell_def new_effects_def)
next
  case False
  from invalid_blob_not_warned [OF assms False] False show ?thesis
    by (simp add: query_host_def tell_def new_effects_def)
qed


theorem invalid_state_skips_layout_query_witness:
  "storage (example_backend blob_version2 None) TerminalBufferState = Some blob_version2
   \<and> blob_version2 \<noteq> []
   \<and> json_parse (example_services True) blob_version2
       = Some (JObj [(''version'', JNum 2), (''state'', JArr [] [])])
   \<and> invalid_state (JObj [(''version'', JNum 2), (''state'', JArr [] [])])
   \<and> warned (JObj [(''version'', JNum 2), (''state'', JArr [] [])])
   \<and> fst (getTerminalLayoutInfo (example_services True) (example_backend blob_version2 None))
       = Inr JUndefined
   \<and> \<not> list_ex is_layout_query
          (new_effects (example_backend blob_version2 None)
             (snd (getTerminalLayoutInfo (example_services True)
                     (example_backend blob_version2 None))))
   \<and> storage (example_backend blob_version_object None) TerminalBufferState
       = Some blob_version_object
   \<and> blob_version_object \<noteq> []
   \<and> json_parse (example_services True) blob_version_object
       = Some (JObj [(''version'', JObj [(''toString'', JNum 0)]), (''state'', JArr [] [])])
   \<and> invalid_state
        (JObj [(''version'', JObj [(''toString'', JNum 0)]), (''state'', JArr [] [])])
   \<and> \<not> warned (JObj [(''version'', JObj [(''toString'', JNum 0)]), (''state'', JArr [] [])])
   \<and> fst (getTerminalLayoutInfo (example_services True)
            (example_backend blob_version_object None))
       = Inr (JObj [(''tabs'', JArr [] [])])
   \<and> new_effects (example_backend blob_version_object None)
        (snd (getTerminalLayoutInfo (example_services True)
                (example_backend blob_version_object None)))
       = [HostGetLayout ''w'']"
proof -
  let ?sv = "example_services True"
  let ?p = "JObj [(''version'', JNum 2), (''state'', JArr [] [])]"
  let ?q = "JObj [(''version'', JObj [(''toString'', JNum 0)]), (''state'', JArr [] [])]"
  have a: "storage (example_backend blob_version2 None) TerminalBufferState = Some blob_version2"
    by (simp add: example_stored)
  have b: "blob_version2 \<noteq> []" by (simp add: blob_version2_def)
  have c: "json_parse ?sv blob_version2 = Some ?p" by (simp add: example_parsed)
  have d: "invalid_state ?p" by (simp add: invalid_state_def)
  have e: "warned ?p" by (simp add: warned_def version_printable_def)
  have a': "storage (example_backend blob_version_object None) TerminalBufferState
              = Some blob_version_object"
    by (simp add: example_stored)
  have b': "blob_version_object \<noteq> []" by (simp add: blob_version_object_def)
  have c': "json_parse ?sv blob_version_object = Some ?q" by (simp add: example_parsed)
  have d': "invalid_state ?q" by (simp add: invalid_state_def)
  have e': "\<not> warned ?q" by (simp add: warned_def version_printable_def format_missing_def)
  have h: "of_reply Rejected (host_getTerminalLayoutInfo ?sv ''w'')
             = Inr (JObj [(''tabs'', JArr [] [])])"
    and i: "workspace_id ?sv = ''w''"
    by (simp_all add: of_reply_def example_services_def)
  from invalid_state_skips_layout_query [OF a b c d] e
  have f: "fst (getTerminalLayoutInfo ?sv (example_backend blob_version2 None)) = Inr JUndefined"
    and g: "\<not> list_ex is_layout_query
              (new_effects (example_backend blob_version2 None)
                 (snd (getTerminalLayoutInfo ?sv (example_backend blob_version2 None))))"
    by blast+
  from invalid_state_skips_layout_query [OF a' b' c' d'] e'
  have "fst (getTerminalLayoutInfo ?sv (example_backend blob_version_object None))
          = of_reply Rejected (host_getTerminalLayoutInfo ?sv (workspace_id ?sv))"
    and "new_effects (example_backend blob_version_object None)
           (snd (getTerminalLayoutInfo ?sv (example_backend blob_version_object None)))
          = [HostGetLayout (workspace_id ?sv)]"
    by blast+
  then have f': "fst (getTerminalLayoutInfo ?sv (example_backend blob_version_object None))
          = Inr (JObj [(''tabs'', JArr [] [])])"
    and g': "new_effects (example_backend blob_version_object None)
           (snd (getTerminalLayoutInfo ?sv (example_backend blob_version_object None)))
          = [HostGetLayout ''w'']"
    by (simp_all only: h i)
  from a b c d e f g a' b' c' d' e' f' g' show ?thesis by blast
qed


text \<open>
  Claim C5: when \<open>getTerminalLayoutInfo\<close> calls \<open>reviveTerminalProcesses\<close>, the persisted
  state had version 1 and the call carries one entry for each persisted entry, whose
  \<open>processLaunchOptions.env\<close> is the environment resolved now from the entry's shell
  launch configuration, with the resolver of the last active workspace root: the
  terminal environment created from the platform's configured environment and the base
  environment, with the merged collection applied on top if and only if the shell launch
  configuration has neither \<open>strictEnv\<close> nor \<open>hideFromUser\<close> set. The captured environment
  takes no part in it.
\<close>

theorem revived_entries_get_fresh_environment:
  "(getTerminalLayoutInfo sv st = (res, st2) \<and> HostRevive parsed \<in> set (new_effects st st2) \<longrightarrow>
      (\<exists>blob p s penv.
          storage st TerminalBufferState = Some blob \<and> json_parse sv blob = Some p
          \<and> field p ''version'' = Some (JNum 1) \<and> field p ''state'' = Some s
          \<and> profile_environment sv = Some penv
          \<and> list_all2
              (\<lambda>e e1. \<exists>slc f. get_prop e ''shellLaunchConfig'' = Inr slc
                         \<and> resolveEnvironmentForRevive sv (revive_resolver sv penv) slc = Inr f
                         \<and> env_of e1 = Inr f)
              (elements s) parsed))
   \<and> (resolveEnvironmentForRevive sv r slc = Inr f \<longrightarrow>
        (\<exists>base env. base_environment sv slc = Some base
           \<and> createTerminalEnvironment sv slc (platform_env sv) r base = Some env
           \<and> (if \<not> flag slc ''strictEnv'' \<and> \<not> flag slc ''hideFromUser''
               then applyToProcessEnvironment sv env r = Some f else f = env)))"
proof (intro conjI impI)
  assume a: "getTerminalLayoutInfo sv st = (res, st2) \<and> HostRevive parsed \<in> set (new_effects st st2)"
  then have g: "getTerminalLayoutInfo sv st = (res, st2)"
    and m: "HostRevive parsed \<in> set (new_effects st st2)" by blast+
  from m have "list_ex is_revive (new_effects st st2)"
    unfolding list_ex_iff by (rule rev_bexI) simp
  from revived_structure [OF g this] obtain blob p s penv st0 q c st1 where
    k: "storage st TerminalBufferState = Some blob" "json_parse sv blob = Some p"
       "field p ''version'' = Some (JNum 1)" "field p ''state'' = Some s"
       "profile_environment sv = Some penv"
       "revive_entries sv (revive_resolver sv penv) (elements s) st = (Inr q, st0)"
       "revive_and_clear sv q st0 = (c, st1)" "query_host sv st1 = (res, st2)"
    by blast
  from revived_effects [OF k(6,7,8)] obtain before rest where
    "new_effects st st2 = before @ HostRevive q # rest"
    "\<not> list_ex is_revive before" "\<not> list_ex is_revive rest" by blast
  from revive_call_unique [OF this m] have q: "parsed = q" .
  have "list_all2
          (\<lambda>e e1. \<exists>slc f. get_prop e ''shellLaunchConfig'' = Inr slc
                     \<and> resolveEnvironmentForRevive sv (revive_resolver sv penv) slc = Inr f
                     \<and> env_of e1 = Inr f)
          (elements s) q"
    by (rule list_all2_mono [OF entries_fresh [OF k(6)]])
       (auto simp add: fresh_env_def bind_exn_def split: sum.splits)
  with k q show "\<exists>blob p s penv.
          storage st TerminalBufferState = Some blob \<and> json_parse sv blob = Some p
          \<and> field p ''version'' = Some (JNum 1) \<and> field p ''state'' = Some s
          \<and> profile_environment sv = Some penv
          \<and> list_all2
              (\<lambda>e e1. \<exists>slc f. get_prop e ''shellLaunchConfig'' = Inr slc
                         \<and> resolveEnvironmentForRevive sv (revive_resolver sv penv) slc = Inr f
                         \<and> env_of e1 = Inr f)
              (elements s) parsed"
    by blast
next
  assume "resolveEnvironmentForRevive sv r slc = Inr f"
  then show "\<exists>base env. base_environment sv slc = Some base
           \<and> createTerminalEnvironment sv slc (platform_env sv) r base = Some env
           \<and> (if \<not> flag slc ''strictEnv'' \<and> \<not> flag slc ''hideFromUser''
               then applyToProcessEnvironment sv env r = Some f else f = env)"
    by (rule resolve_cases)
qed


theorem revived_entries_get_fresh_environment_witness:
  "HostRevive [entry1_revived]
     \<in> set (new_effects (example_backend blob_version1 (Some blob_layout))
              (snd (getTerminalLayoutInfo (example_services True)
                      (example_backend blob_version1 (Some blob_layout)))))
   \<and> resolveEnvironmentForRevive (example_services True) 0 (JObj [])
       = Inr (JObj [(''NEW'', JStr ''2''), (''EXTRA'', JStr ''3'')])
   \<and> (\<exists>blob p s penv.
          storage (example_backend blob_version1 (Some blob_layout)) TerminalBufferState = Some blob
          \<and> json_parse (example_services True) blob = Some p
          \<and> field p ''version'' = Some (JNum 1) \<and> field p ''state'' = Some s
          \<and> profile_environment (example_services True) = Some penv
          \<and> list_all2
              (\<lambda>e e1. \<exists>slc f. get_prop e ''shellLaunchConfig'' = Inr slc
                  \<and> resolveEnvironmentForRevive (example_services True)
                       (revive_resolver (example_services True) penv) slc = Inr f
                  \<and> env_of e1 = Inr f)
              (elements s) [entry1_revived])
   \<and> (\<exists>base env. base_environment (example_services True) (JObj []) = Some base
         \<and> createTerminalEnvironment (example_services True) (JObj [])
              (platform_env (example_services True)) 0 base = Some env
         \<and> applyToProcessEnvironment (example_services True) env 0
              = Some (JObj [(''NEW'', JStr ''2''), (''EXTRA'', JStr ''3'')]))"
proof -
  let ?sv = "example_services True"
  let ?st = "example_backend blob_version1 (Some blob_layout)"
  let ?f = "JObj [(''NEW'', JStr ''2''), (''EXTRA'', JStr ''3'')]"
  have a: "getTerminalLayoutInfo ?sv ?st
             = (fst (getTerminalLayoutInfo ?sv ?st), snd (getTerminalLayoutInfo ?sv ?st))
           \<and> HostRevive [entry1_revived]
               \<in> set (new_effects ?st (snd (getTerminalLayoutInfo ?sv ?st)))"
    using example_revive_call [of True] by simp
  have b: "resolveEnvironmentForRevive ?sv 0 (JObj []) = Inr ?f"
    by (simp add: resolveEnvironmentForRevive_def example_services_def bind_exn_def
        of_reply_def)
  have c: "\<not> flag (JObj []) ''strictEnv'' \<and> \<not> flag (JObj []) ''hideFromUser''"
    by (simp add: flag_def)
  note t = revived_entries_get_fresh_environment [of ?sv ?st "fst (getTerminalLayoutInfo ?sv ?st)"
              "snd (getTerminalLayoutInfo ?sv ?st)" "[entry1_revived]" 0 "JObj []" ?f]
  from t a have d: "\<exists>blob p s penv.
          storage ?st TerminalBufferState = Some blob
          \<and> json_parse ?sv blob = Some p
          \<and> field p ''version'' = Some (JNum 1) \<and> field p ''state'' = Some s
          \<and> profile_environment ?sv = Some penv
          \<and> list_all2
              (\<lambda>e e1. \<exists>slc f. get_prop e ''shellLaunchConfig'' = Inr slc
                  \<and> resolveEnvironmentForRevive ?sv (revive_resolver ?sv penv) slc = Inr f
                  \<and> env_of e1 = Inr f)
              (elements s) [entry1_revived]"
    by blast
  from t b c have e: "\<exists>base env. base_environment ?sv (JObj []) = Some base
         \<and> createTerminalEnvironment ?sv (JObj []) (platform_env ?sv) 0 base = Some env
         \<and> applyToProcessEnvironment ?sv env 0 = Some ?f"
    by auto
  from a b d e show ?thesis by blast
qed


text \<open>
  The revival succeeds and a layout is stored, but the pty host rejects
  \<open>setTerminalLayoutInfo\<close>: the layout stays in the storage.
\<close>

theorem rejected_layout_stays_stored:
  "HostRevive [entry1_revived]
     \<in> set (trace (snd (getTerminalLayoutInfo (example_services False)
                          (example_backend blob_version1 (Some blob_layout)))))
   \<and> reviveTerminalProcesses (example_services False) [entry1_revived]
   \<and> storage (example_backend blob_version1 (Some blob_layout)) TerminalLayoutInfo
       = Some blob_layout
   \<and> storage (snd (getTerminalLayoutInfo (example_services False)
                      (example_backend blob_version1 (Some blob_layout)))) TerminalLayoutInfo
       = Some blob_layout"
  using example_revive [of False]
  by (simp add: example_services_def example_backend_def new_backend_def example_store_def)


text \<open>
  Claim C6 (amended): when \<open>reviveTerminalProcesses\<close> was called and resolved, the
  persisted state is removed from the storage, and the next call of
  \<open>getTerminalLayoutInfo\<close> revives nothing. If a layout is stored then, is not empty,
  parses, and the pty host accepts it, it is sent with \<open>setTerminalLayoutInfo\<close> after the
  state is removed and then removed too. If the pty host rejects it, or if it is empty or
  does not parse, the layout stays in the storage; in each case the call goes on to
  query the host.
\<close>

theorem successful_revival_clears_state:
  assumes g: "getTerminalLayoutInfo sv st = (res, st2)"
    and m: "HostRevive parsed \<in> set (new_effects st st2)"
    and ok: "reviveTerminalProcesses sv parsed"
  shows "storage st2 TerminalBufferState = None
    \<and> \<not> list_ex is_revive (new_effects st2 (snd (getTerminalLayoutInfo sv st2)))
    \<and> (\<forall>l v. storage st TerminalLayoutInfo = Some l \<and> l \<noteq> [] \<and> json_parse sv l = Some v
             \<and> host_setTerminalLayoutInfo sv v \<longrightarrow>
          storage st2 TerminalLayoutInfo = None
          \<and> (\<exists>before. new_effects st st2
                = before @ [HostRevive parsed, StorageRemove TerminalBufferState,
                            HostSetLayout v, StorageRemove TerminalLayoutInfo,
                            HostGetLayout (workspace_id sv)]))
    \<and> (\<forall>l v. storage st TerminalLayoutInfo = Some l \<and> l \<noteq> [] \<and> json_parse sv l = Some v
             \<and> \<not> host_setTerminalLayoutInfo sv v \<longrightarrow>
          storage st2 TerminalLayoutInfo = Some l
          \<and> (\<exists>before. new_effects st st2
                = before @ [HostRevive parsed, StorageRemove TerminalBufferState,
                            HostSetLayout v, HostGetLayout (workspace_id sv)]))
    \<and> (\<forall>l. storage st TerminalLayoutInfo = Some l \<and> (l = [] \<or> json_parse sv l = None) \<longrightarrow>
          storage st2 TerminalLayoutInfo = Some l
          \<and> (\<exists>before. new_effects st st2
                = before @ [HostRevive parsed, StorageRemove TerminalBufferState,
                            HostGetLayout (workspace_id sv)]))"
proof -
  from m have "list_ex is_revive (new_effects st st2)"
    unfolding list_ex_iff by (rule rev_bexI) simp
  from revived_structure [OF g this] obtain s penv st0 q c st1 where
    k: "revive_entries sv (revive_resolver sv penv) (elements s) st = (Inr q, st0)"
       "revive_and_clear sv q st0 = (c, st1)" "query_host sv st1 = (res, st2)"
    by blast
  from revived_effects [OF k] obtain before rest where
    "new_effects st st2 = before @ HostRevive q # rest"
    "\<not> list_ex is_revive before" "\<not> list_ex is_revive rest" by blast
  from revive_call_unique [OF this m] have q: "q = parsed" ..
  from quiet_entries [OF k(1)] have qu: "quiet st st0" .
  from quiet_storage [OF qu] have s0: "storage st0 = storage st" .
  from quiet_new_effects [OF qu] obtain ls where t0: "trace st0 = trace st @ ls" by blast
  from query_host_result [OF k(3)] have
    s2: "storage st2 = storage st1"
    and t2: "trace st2 = trace st1 @ [HostGetLayout (workspace_id sv)]"
    by (simp_all add: tell_def)
  note r = revive_and_clear_ok [OF k(2) [unfolded q] ok, unfolded s0]
  have ne: "\<And>xs. trace st1 = trace st0 @ xs \<Longrightarrow>
              new_effects st st2 = ls @ xs @ [HostGetLayout (workspace_id sv)]"
    by (simp add: new_effects_def t0 t2)
  from r have a: "storage st2 TerminalBufferState = None" by (simp add: s2)
  from no_state_no_revive [OF a]
  have b: "\<not> list_ex is_revive (new_effects st2 (snd (getTerminalLayoutInfo sv st2)))" .
  have c1: "\<forall>l v. storage st TerminalLayoutInfo = Some l \<and> l \<noteq> [] \<and> json_parse sv l = Some v
             \<and> host_setTerminalLayoutInfo sv v \<longrightarrow>
          storage st2 TerminalLayoutInfo = None
          \<and> (\<exists>before. new_effects st st2
                = before @ [HostRevive parsed, StorageRemove TerminalBufferState,
                            HostSetLayout v, StorageRemove TerminalLayoutInfo,
                            HostGetLayout (workspace_id sv)])"
  proof (intro allI impI)
    fix l v
    assume h: "storage st TerminalLayoutInfo = Some l \<and> l \<noteq> [] \<and> json_parse sv l = Some v
                 \<and> host_setTerminalLayoutInfo sv v"
    with r have x: "storage st1 TerminalLayoutInfo = None"
      and y: "trace st1 = trace st0 @ [HostRevive parsed, StorageRemove TerminalBufferState,
                                       HostSetLayout v, StorageRemove TerminalLayoutInfo]"
      by blast+
    from ne [OF y] have "new_effects st st2
        = ls @ [HostRevive parsed, StorageRemove TerminalBufferState,
                HostSetLayout v, StorageRemove TerminalLayoutInfo,
                HostGetLayout (workspace_id sv)]" by simp
    with x s2 show "storage st2 TerminalLayoutInfo = None
          \<and> (\<exists>before. new_effects st st2
                = before @ [HostRevive parsed, StorageRemove TerminalBufferState,
                            HostSetLayout v, StorageRemove TerminalLayoutInfo,
                            HostGetLayout (workspace_id sv)])" by simp
  qed
  have c2: "\<forall>l v. storage st TerminalLayoutInfo = Some l \<and> l \<noteq> [] \<and> json_parse sv l = Some v
             \<and> \<not> host_setTerminalLayoutInfo sv v \<longrightarrow>
          storage st2 TerminalLayoutInfo = Some l
          \<and> (\<exists>before. new_effects st st2
                = before @ [HostRevive parsed, StorageRemove TerminalBufferState,
                            HostSetLayout v, HostGetLayout (workspace_id sv)])"
  proof (intro allI impI)
    fix l v
    assume h: "storage st TerminalLayoutInfo = Some l \<and> l \<noteq> [] \<and> json_parse sv l = Some v
                 \<and> \<not> host_setTerminalLayoutInfo sv v"
    with r have x: "storage st1 TerminalLayoutInfo = Some l"
      and y: "trace st1 = trace st0 @ [HostRevive parsed, StorageRemove TerminalBufferState,
                                       HostSetLayout v]"
      by blast+
    from ne [OF y] have "new_effects st st2
        = ls @ [HostRevive parsed, StorageRemove TerminalBufferState,
                HostSetLayout v, HostGetLayout (workspace_id sv)]" by simp
    with x s2 show "storage st2 TerminalLayoutInfo = Some l
          \<and> (\<exists>before. new_effects st st2
                = before @ [HostRevive parsed, StorageRemove TerminalBufferState,
                            HostSetLayout v, HostGetLayout (workspace_id sv)])" by simp
  qed
  have c3: "\<forall>l. storage st TerminalLayoutInfo = Some l \<and> (l = [] \<or> json_parse sv l = None) \<longrightarrow>
          storage st2 TerminalLayoutInfo = Some l
          \<and> (\<exists>before. new_effects st st2
                = before @ [HostRevive parsed, StorageRemove TerminalBufferState,
                            HostGetLayout (workspace_id sv)])"
  proof (intro allI impI)
    fix l
    assume h: "storage st TerminalLayoutInfo = Some l \<and> (l = [] \<or> json_parse sv l = None)"
    with r have x: "storage st1 TerminalLayoutInfo = Some l"
      and y: "trace st1 = trace st0 @ [HostRevive parsed, StorageRemove TerminalBufferState]"
      by blast+
    from ne [OF y] have "new_effects st st2
        = ls @ [HostRevive parsed, StorageRemove TerminalBufferState,
                HostGetLayout (workspace_id sv)]" by simp
    with x s2 show "storage st2 TerminalLayoutInfo = Some l
          \<and> (\<exists>before. new_effects st st2
                = before @ [HostRevive parsed, StorageRemove TerminalBufferState,
                            HostGetLayout (workspace_id sv)])" by simp
  qed
  from a b c1 c2 c3 show ?thesis by blast
qed


theorem successful_revival_clears_state_witness:
  "HostRevive [entry1_revived]
     \<in> set (new_effects (example_backend blob_version1 (Some blob_layout))
              (snd (getTerminalLayoutInfo (example_services True)
                      (example_backend blob_version1 (Some blob_layout)))))
   \<and> reviveTerminalProcesses (example_services True) [entry1_revived]
   \<and> storage (example_backend blob_version1 (Some blob_layout)) TerminalLayoutInfo
       = Some blob_layout
   \<and> blob_layout \<noteq> []
   \<and> json_parse (example_services True) blob_layout
       = Some (JObj [(''workspaceId'', JStr ''w''), (''tabs'', JArr [] [])])
   \<and> host_setTerminalLayoutInfo (example_services True)
        (JObj [(''workspaceId'', JStr ''w''), (''tabs'', JArr [] [])])
   \<and> storage (snd (getTerminalLayoutInfo (example_services True)
                      (example_backend blob_version1 (Some blob_layout)))) TerminalBufferState
       = None
   \<and> storage (snd (getTerminalLayoutInfo (example_services True)
                      (example_backend blob_version1 (Some blob_layout)))) TerminalLayoutInfo
       = None"
proof -
  let ?sv = "example_services True"
  let ?st = "example_backend blob_version1 (Some blob_layout)"
  let ?v = "JObj [(''workspaceId'', JStr ''w''), (''tabs'', JArr [] [])]"
  have g: "getTerminalLayoutInfo ?sv ?st
             = (fst (getTerminalLayoutInfo ?sv ?st), snd (getTerminalLayoutInfo ?sv ?st))"
    by simp
  have m: "HostRevive [entry1_revived]
             \<in> set (new_effects ?st (snd (getTerminalLayoutInfo ?sv ?st)))"
    by (rule example_revive_call)
  have ok: "reviveTerminalProcesses ?sv [entry1_revived]"
    by (simp add: example_services_def)
  have l: "storage ?st TerminalLayoutInfo = Some blob_layout \<and> blob_layout \<noteq> []
           \<and> json_parse ?sv blob_layout = Some ?v \<and> host_setTerminalLayoutInfo ?sv ?v"
    by (simp add: example_backend_def new_backend_def example_store_def example_services_def
        example_parse_def blob_layout_def blob_null_def blob_version1_def blob_version2_def
        blob_version_object_def)
  from successful_revival_clears_state [OF g m ok] l
  have "storage (snd (getTerminalLayoutInfo ?sv ?st)) TerminalBufferState = None
        \<and> storage (snd (getTerminalLayoutInfo ?sv ?st)) TerminalLayoutInfo = None"
    by blast
  with m ok l show ?thesis by blast
qed

end
